theory Spec2Isabelle
  imports Complex_Main "HOL-Library.Word"
begin

unbundle bit_operations_syntax

section \<open>The Gazebo MAVLink interface plugin\<close>

text \<open>
  A shallow embedding of \<^verbatim>\<open>GazeboMavlinkInterface\<close>
  (\<^verbatim>\<open>src/src/gazebo_mavlink_interface.cpp\<close>, \<^verbatim>\<open>src/include/gazebo_mavlink_interface.h\<close>).
  The class is a record of the member variables the modelled member functions read or
  write; every member function takes the record and returns it updated. What the plugin
  does to the outside (datagrams handed to \<^verbatim>\<open>sendto\<close>, buffers handed to
  \<^verbatim>\<open>async_write_some\<close>, handlers posted to the io service, published motor speeds,
  \<^verbatim>\<open>gzerr\<close> lines) is appended to a list in the record.

  Conventions.
  \<^item> \<^verbatim>\<open>double\<close> and \<^verbatim>\<open>float\<close> values are real numbers: the operations are the
    source's, in the source's order, without rounding.
  \<^item> \<^verbatim>\<open>common::Time\<close> is an integer number of nanoseconds and \<^verbatim>\<open>Double()\<close> its
    value in seconds.
  \<^item> \<^verbatim>\<open>world_->GetSimTime()\<close> reads the field \<open>sim_time\<close>, which the simulator
    (not the plugin) advances.
  \<^item> The MAVLink C library, the SDF reader and \<^verbatim>\<open>msgbuffer.h\<close> are not among the source
    files. The library functions the plugin calls are the fields of a record that every
    function takes as its first argument, so each theorem holds for every behaviour of
    the library.
\<close>

subsection \<open>Constants of the header\<close>

definition kDefaultMavlinkUdpPort :: int where
  "kDefaultMavlinkUdpPort = 14560"

definition kDefaultQGCUdpPort :: int where
  "kDefaultQGCUdpPort = 14550"

definition MAX_TXQ_SIZE :: nat where
  "MAX_TXQ_SIZE = 1000"

text \<open>\<^verbatim>\<open>MAX_SIZE = MAVLINK_MAX_PACKET_LEN + 16\<close>, which the header's comment gives as
  280 + padding.\<close>

definition MAX_SIZE :: nat where
  "MAX_SIZE = 280 + 16"

definition n_out_max :: nat where
  "n_out_max = 16"

subsection \<open>MAVLink library types\<close>

text \<open>\<^verbatim>\<open>enum class Framing\<close> of the header.\<close>

datatype Framing = incomplete | ok | bad_crc | bad_signature

text \<open>\<^verbatim>\<open>mavlink_parse_state_t\<close> of the library. The plugin names \<^verbatim>\<open>IDLE\<close> and
  \<^verbatim>\<open>GOT_STX\<close>; \<^verbatim>\<open>UNINIT\<close> is the value 0 that \<^verbatim>\<open>m_status {}\<close> gives.\<close>

datatype mavlink_parse_state_t =
    MAVLINK_PARSE_STATE_UNINIT
  | MAVLINK_PARSE_STATE_IDLE
  | MAVLINK_PARSE_STATE_GOT_STX
  | MAVLINK_PARSE_STATE_GOT_LENGTH
  | MAVLINK_PARSE_STATE_GOT_INCOMPAT_FLAGS
  | MAVLINK_PARSE_STATE_GOT_COMPAT_FLAGS
  | MAVLINK_PARSE_STATE_GOT_SEQ
  | MAVLINK_PARSE_STATE_GOT_SYSID
  | MAVLINK_PARSE_STATE_GOT_COMPID
  | MAVLINK_PARSE_STATE_GOT_MSGID1
  | MAVLINK_PARSE_STATE_GOT_MSGID2
  | MAVLINK_PARSE_STATE_GOT_MSGID3
  | MAVLINK_PARSE_STATE_GOT_PAYLOAD
  | MAVLINK_PARSE_STATE_GOT_CRC1
  | MAVLINK_PARSE_STATE_GOT_BAD_CRC1
  | MAVLINK_PARSE_STATE_SIGNATURE_WAIT

text \<open>\<^verbatim>\<open>mavlink_status_t\<close>: the two fields the plugin assigns; the rest of the
  structure is the record's extension.\<close>

record mavlink_status_t =
  msg_received :: Framing
  parse_state :: mavlink_parse_state_t

text \<open>\<^verbatim>\<open>mavlink_message_t\<close>: the plugin reads \<^verbatim>\<open>msgid\<close> and assigns \<^verbatim>\<open>len\<close>.\<close>

record mavlink_message_t =
  len :: "8 word"
  msgid :: nat

text \<open>\<^verbatim>\<open>mavlink_hil_actuator_controls_t\<close>: the fields \<^verbatim>\<open>handle_message\<close> reads.\<close>

record mavlink_hil_actuator_controls_t =
  controls :: "nat \<Rightarrow> real"
  mode :: "8 word"

text \<open>\<^verbatim>\<open>mavlink_hil_optical_flow_t\<close>: the integrated gyro fields, which
  \<^verbatim>\<open>OpticalFlowCallback\<close> fills from the plugin's accumulator, and \<^verbatim>\<open>quality\<close>,
  which selects them. The remaining fields are copies of the simulator's sample, of the
  simulation time and of the last lidar distance, and are left out.\<close>

record mavlink_hil_optical_flow_t =
  integrated_xgyro :: real
  integrated_ygyro :: real
  integrated_zgyro :: real
  quality :: "8 word"

definition MAVLINK_STX :: "8 word" where
  "MAVLINK_STX = 253"

definition MAVLINK_MSG_ID_HIL_ACTUATOR_CONTROLS :: nat where
  "MAVLINK_MSG_ID_HIL_ACTUATOR_CONTROLS = 93"

definition MAV_MODE_FLAG_SAFETY_ARMED :: "8 word" where
  "MAV_MODE_FLAG_SAFETY_ARMED = 128"

text \<open>The library functions the plugin calls. \<open>mavlink_frame_char_buffer\<close> takes the
  receive buffer, the receive status and a byte, and returns both updated, the message
  it hands back and the framing result.\<close>

record ('a, 'b) mavlink =
  mavlink_frame_char_buffer ::
    "'b mavlink_message_t_scheme \<Rightarrow> 'a mavlink_status_t_scheme \<Rightarrow> 8 word \<Rightarrow>
      'b mavlink_message_t_scheme \<times> 'a mavlink_status_t_scheme \<times>
      'b mavlink_message_t_scheme \<times> Framing"
  mav_parse_error :: "'a mavlink_status_t_scheme \<Rightarrow> 'a mavlink_status_t_scheme"
  mavlink_start_checksum :: "'b mavlink_message_t_scheme \<Rightarrow> 'b mavlink_message_t_scheme"
  mavlink_msg_to_send_buffer :: "'b mavlink_message_t_scheme \<Rightarrow> 8 word list"
  mavlink_msg_hil_actuator_controls_decode ::
    "'b mavlink_message_t_scheme \<Rightarrow> mavlink_hil_actuator_controls_t"
  mavlink_msg_hil_optical_flow_encode_chan ::
    "mavlink_hil_optical_flow_t \<Rightarrow> 'b mavlink_message_t_scheme"

subsection \<open>The plugin's state\<close>

type_synonym Time = int

definition Double :: "Time \<Rightarrow> real" where
  "Double t = real_of_int t / 1000000000"

text \<open>\<^verbatim>\<open>math::Vector3\<close> with the operations the plugin uses.\<close>

record Vector3 =
  v3x :: real
  v3y :: real
  v3z :: real

definition v3_zero :: Vector3 where
  "v3_zero = \<lparr>v3x = 0, v3y = 0, v3z = 0\<rparr>"

definition v3_add :: "Vector3 \<Rightarrow> Vector3 \<Rightarrow> Vector3" where
  "v3_add a b = \<lparr>v3x = v3x a + v3x b, v3y = v3y a + v3y b, v3z = v3z a + v3z b\<rparr>"

definition v3_scale :: "Vector3 \<Rightarrow> real \<Rightarrow> Vector3" where
  "v3_scale a k = \<lparr>v3x = v3x a * k, v3y = v3y a * k, v3z = v3z a * k\<rparr>"

definition GetLength :: "Vector3 \<Rightarrow> real" where
  "GetLength a = sqrt (v3x a * v3x a + v3y a * v3y a + v3z a * v3z a)"

text \<open>\<^verbatim>\<open>struct sockaddr_in\<close>: address and port (the byte order of \<^verbatim>\<open>htons\<close> and
  \<^verbatim>\<open>htonl\<close> is not modelled).\<close>

record sockaddr_in =
  sin_addr :: "32 word"
  sin_port :: "16 word"

definition htons :: "int \<Rightarrow> 16 word" where
  "htons p = word_of_int p"

definition INADDR_ANY :: "32 word" where
  "INADDR_ANY = 0"

definition INADDR_NONE :: "32 word" where
  "INADDR_NONE = - 1"

text \<open>Modelled from the spec: \<^verbatim>\<open>MsgBuffer\<close> of \<^verbatim>\<open>msgbuffer.h\<close>, which is not among
  the source files. It is the spec's PendingFrame, "a Frame plus a cursor marking write
  progress": the packet bytes \<open>data\<close>, their count \<open>buf_len\<close> (the source's
  \<^verbatim>\<open>len\<close>) and the cursor \<open>pos\<close>. \<^verbatim>\<open>nbytes()\<close> is what is left to write and
  \<^verbatim>\<open>dpos()\<close> points at it. The constructor serialises the message with
  \<^verbatim>\<open>mavlink_msg_to_send_buffer\<close> and starts the cursor at 0.\<close>

record MsgBuffer =
  data :: "8 word list"
  buf_len :: int
  pos :: int

definition nbytes :: "MsgBuffer \<Rightarrow> int" where
  "nbytes b = buf_len b - pos b"

definition dpos :: "MsgBuffer \<Rightarrow> 8 word list" where
  "dpos b = drop (nat (pos b)) (data b)"

definition MsgBuffer_of :: "('a, 'b, 'c) mavlink_scheme \<Rightarrow> 'b mavlink_message_t_scheme \<Rightarrow> MsgBuffer" where
  "MsgBuffer_of L message =
     \<lparr>data = mavlink_msg_to_send_buffer L message,
      buf_len = int (length (mavlink_msg_to_send_buffer L message)),
      pos = 0\<rparr>"

text \<open>Handlers posted to the io service.\<close>

datatype io_task = Do_read | Do_write bool

text \<open>The member variables, named as in the header without the trailing underscore.
  \<open>srcaddr\<close> is \<^verbatim>\<open>_srcaddr\<close>; \<open>serial_dev_open\<close> is
  \<^verbatim>\<open>serial_dev.is_open()\<close>; \<open>last_dt_us\<close> is the function-local static of
  \<^verbatim>\<open>ImuCallback\<close>, \<open>None\<close> until its declaration is first reached. The last five
  fields record what the plugin hands to the outside.\<close>

record ('a, 'b) GazeboMavlinkInterface =
  received_first_referenc :: bool
  input_reference :: "real list"
  input_offset :: "nat \<Rightarrow> real"
  input_scaling :: "nat \<Rightarrow> real"
  zero_position_disarmed :: "nat \<Rightarrow> real"
  zero_position_armed :: "nat \<Rightarrow> real"
  input_index :: "nat \<Rightarrow> int"
  last_time :: Time
  last_imu_time :: Time
  last_actuator_time :: Time
  imu_update_interval :: real
  srcaddr :: sockaddr_in
  optflow_gyro :: Vector3
  last_dt_us :: "32 word option"
  mavlink_addr :: "32 word"
  mavlink_udp_port :: int
  qgc_addr :: "32 word"
  qgc_udp_port :: int
  m_status :: "'a mavlink_status_t_scheme"
  m_buffer :: "'b mavlink_message_t_scheme"
  serial_enabled :: bool
  serial_dev_open :: bool
  tx_in_progress :: bool
  tx_q :: "MsgBuffer list"
  hil_mode :: bool
  hil_state_level :: bool
  sim_time :: Time
  gzerr :: "string list"
  sendto_log :: "(sockaddr_in \<times> 8 word list) list"
  io_posted :: "io_task list"
  async_write_some :: "8 word list list"
  motor_velocity_reference_pub :: "real list list"

subsection \<open>Failures\<close>

text \<open>What stops a member function: a failed \<^verbatim>\<open>assert\<close>, the completion handler's
  reference \<^verbatim>\<open>buf_ref\<close> to the front of an empty queue, an integer division by zero.\<close>

datatype failure = Assertion_failed | Dangling_buf_ref | Division_by_zero

subsection \<open>Routing an outbound message\<close>

text \<open>\<^verbatim>\<open>send_mavlink_message\<close>. The queue-overflow test has an empty body in the source
  (its warning is commented out). \<^verbatim>\<open>dest_addr\<close> is computed and not used: \<^verbatim>\<open>sendto\<close>
  is given \<^verbatim>\<open>_srcaddr\<close>. The result of \<^verbatim>\<open>sendto\<close> only selects a \<^verbatim>\<open>printf\<close> and is
  not modelled.\<close>

definition send_mavlink_message ::
  "('a, 'b, 'c) mavlink_scheme \<Rightarrow> 'b mavlink_message_t_scheme \<Rightarrow> int \<Rightarrow>
    ('a, 'b) GazeboMavlinkInterface \<Rightarrow> ('a, 'b) GazeboMavlinkInterface" where
  "send_mavlink_message L message destination_port s =
     (if serial_enabled s \<and> destination_port = 0 then
        (if \<not> serial_dev_open s then s\<lparr>gzerr := gzerr s @ [''Serial port closed! '']\<rparr>
         else
           (let s1 = (if MAX_TXQ_SIZE \<le> length (tx_q s) then s else s)
            in s1\<lparr>tx_q := tx_q s1 @ [MsgBuffer_of L message],
                  io_posted := io_posted s1 @ [Do_write True]\<rparr>))
      else
        (let buffer = mavlink_msg_to_send_buffer L message;
             dest_addr = (if destination_port \<noteq> 0
                          then (srcaddr s)\<lparr>sin_port := htons destination_port\<rparr>
                          else srcaddr s)
         in s\<lparr>sendto_log := sendto_log s @ [(srcaddr s, buffer)]\<rparr>))"

subsection \<open>The serial transmit queue\<close>

text \<open>\<^verbatim>\<open>do_write\<close> up to the call of \<^verbatim>\<open>async_write_some\<close>: the buffer handed to the
  device is \<^verbatim>\<open>nbytes()\<close> bytes from \<^verbatim>\<open>dpos()\<close> of the front element. (For a cursor
  beyond the length \<^verbatim>\<open>nbytes()\<close> is negative and the size of the source's buffer is
  not what the model has; the device writes no more than it is given, so the cursor of
  a queued frame stays within its length.)\<close>

definition do_write ::
  "bool \<Rightarrow> ('a, 'b) GazeboMavlinkInterface \<Rightarrow> ('a, 'b) GazeboMavlinkInterface" where
  "do_write check_tx_state s =
     (if check_tx_state \<and> tx_in_progress s then s
      else
        (case tx_q s of
           [] \<Rightarrow> s
         | buf_ref # _ \<Rightarrow>
             s\<lparr>tx_in_progress := True,
               async_write_some := async_write_some s @ [take (nat (nbytes buf_ref)) (dpos buf_ref)]\<rparr>))"

text \<open>The completion handler that \<^verbatim>\<open>do_write\<close> gives to \<^verbatim>\<open>async_write_some\<close>, called
  with the device's error flag and the number of bytes written. \<^verbatim>\<open>buf_ref\<close> was bound
  to \<^verbatim>\<open>tx_q.front()\<close> when the write started; \<^verbatim>\<open>emplace_back\<close> keeps references into
  a deque valid and only this handler pops, so \<^verbatim>\<open>buf_ref\<close> is the front element.\<close>

definition do_write_handler ::
  "bool \<Rightarrow> nat \<Rightarrow> ('a, 'b) GazeboMavlinkInterface \<Rightarrow> failure + ('a, 'b) GazeboMavlinkInterface" where
  "do_write_handler error bytes_transferred s =
     (case tx_q s of
        [] \<Rightarrow> Inl Dangling_buf_ref
      | buf_ref # rest \<Rightarrow>
          if \<not> int bytes_transferred \<le> buf_len buf_ref then Inl Assertion_failed
          else if error then Inr (s\<lparr>gzerr := gzerr s @ [''Serial error: '']\<rparr>)
          else if tx_q s = [] then Inr (s\<lparr>tx_in_progress := False\<rparr>)
          else
            (let buf_ref' = buf_ref\<lparr>pos := pos buf_ref + int bytes_transferred\<rparr>;
                 s1 = s\<lparr>tx_q := buf_ref' # rest\<rparr>;
                 s2 = (if nbytes buf_ref' = 0 then s1\<lparr>tx_q := tl (tx_q s1)\<rparr> else s1)
             in if tx_q s2 \<noteq> [] then Inr (do_write False s2)
                else Inr (s2\<lparr>tx_in_progress := False\<rparr>)))"

text \<open>The device side of a drain: the write in flight completes without error having
  written all the bytes it was given, and this repeated a number of times. No
  \<^verbatim>\<open>do_write(true)\<close> runs in between.\<close>

definition complete_write ::
  "('a, 'b) GazeboMavlinkInterface \<Rightarrow> failure + ('a, 'b) GazeboMavlinkInterface" where
  "complete_write s =
     (case tx_q s of
        [] \<Rightarrow> Inl Dangling_buf_ref
      | buf_ref # _ \<Rightarrow> do_write_handler False (nat (nbytes buf_ref)) s)"

fun complete_writes ::
  "nat \<Rightarrow> ('a, 'b) GazeboMavlinkInterface \<Rightarrow> failure + ('a, 'b) GazeboMavlinkInterface" where
  "complete_writes 0 s = Inr s"
| "complete_writes (Suc k) s =
     (case complete_write s of Inl e \<Rightarrow> Inl e | Inr s' \<Rightarrow> complete_writes k s')"

subsection \<open>Decoding inbound messages\<close>

text \<open>\<^verbatim>\<open>handle_message\<close>. After \<^verbatim>\<open>input_reference_.resize(n_out_max)\<close> the loop runs
  over \<open>n_out_max\<close> channels, each assigned once.\<close>

definition handle_message ::
  "('a, 'b, 'c) mavlink_scheme \<Rightarrow> 'b mavlink_message_t_scheme \<Rightarrow>
    ('a, 'b) GazeboMavlinkInterface \<Rightarrow> ('a, 'b) GazeboMavlinkInterface" where
  "handle_message L msg s =
     (if msgid msg = MAVLINK_MSG_ID_HIL_ACTUATOR_CONTROLS then
        (let ctl = mavlink_msg_hil_actuator_controls_decode L msg;
             armed = (0 < (mode ctl AND MAV_MODE_FLAG_SAFETY_ARMED));
             s1 = s\<lparr>last_actuator_time := sim_time s\<rparr>;
             s2 = s1\<lparr>input_index := (\<lambda>i. if i < n_out_max then int i else input_index s1 i)\<rparr>;
             s3 = s2\<lparr>input_reference :=
                    map (\<lambda>i. if armed
                              then (controls ctl (nat (input_index s2 i)) + input_offset s2 i)
                                     * input_scaling s2 i + zero_position_armed s2 i
                              else zero_position_disarmed s2 i)
                        [0..<n_out_max]\<rparr>
         in s3\<lparr>received_first_referenc := True\<rparr>)
      else s)"

text \<open>\<^verbatim>\<open>pollForMAVLinkMessages\<close>. The argument is what the zero-timeout poll finds:
  nothing, or a datagram with its sender and the messages that \<^verbatim>\<open>mavlink_parse_char\<close>
  completes on its bytes, in order. \<^verbatim>\<open>recvfrom\<close> stores the sender in \<^verbatim>\<open>_srcaddr\<close>.\<close>

definition poll_message ::
  "('a, 'b, 'c) mavlink_scheme \<Rightarrow> 'b mavlink_message_t_scheme \<Rightarrow>
    ('a, 'b) GazeboMavlinkInterface \<Rightarrow> ('a, 'b) GazeboMavlinkInterface" where
  "poll_message L msg s =
     handle_message L msg (if serial_enabled s then send_mavlink_message L msg 0 s else s)"

definition pollForMAVLinkMessages ::
  "('a, 'b, 'c) mavlink_scheme \<Rightarrow> (sockaddr_in \<times> 'b mavlink_message_t_scheme list) option \<Rightarrow>
    ('a, 'b) GazeboMavlinkInterface \<Rightarrow> ('a, 'b) GazeboMavlinkInterface" where
  "pollForMAVLinkMessages L datagram s =
     (case datagram of
        None \<Rightarrow> s
      | Some (sender, msgs) \<Rightarrow> fold (poll_message L) msgs (s\<lparr>srcaddr := sender\<rparr>))"

text \<open>\<^verbatim>\<open>OnUpdate\<close>. \<^verbatim>\<open>handle_control\<close> drives the joints from \<^verbatim>\<open>input_reference_\<close>
  and changes no member variable of the record.\<close>

definition OnUpdate ::
  "('a, 'b, 'c) mavlink_scheme \<Rightarrow> (sockaddr_in \<times> 'b mavlink_message_t_scheme list) option \<Rightarrow>
    ('a, 'b) GazeboMavlinkInterface \<Rightarrow> ('a, 'b) GazeboMavlinkInterface" where
  "OnUpdate L datagram s =
     (let current_time = sim_time s;
          s1 = pollForMAVLinkMessages L datagram s;
          s2 = (if received_first_referenc s1 then
                  s1\<lparr>motor_velocity_reference_pub := motor_velocity_reference_pub s1 @
                       [map (\<lambda>i. if last_actuator_time s1 = 0
                                     \<or> 0.2 < Double (current_time - last_actuator_time s1)
                                  then 0 else input_reference s1 ! i)
                            [0..<length (input_reference s1)]]\<rparr>
                else s1)
      in s2\<lparr>last_time := current_time\<rparr>)"

subsection \<open>Sensor callbacks\<close>

text \<open>What \<^verbatim>\<open>ImuCallback\<close> takes from the simulator: \<^verbatim>\<open>sensor_msg.time_usec\<close> (the
  simulation time in microseconds as \<^verbatim>\<open>uint64_t\<close>), the body-frame gyro vector
  \<^verbatim>\<open>gyro_b\<close>, and the two encoded messages. The payload arithmetic of the two builders
  (frame rotations, pressure model, noise) is outside the model: the messages are given.\<close>

record 'b imu_sample =
  time_usec :: "64 word"
  gyro_b :: Vector3
  hil_sensor_msg :: "'b mavlink_message_t_scheme"
  hil_state_quaternion_msg :: "'b mavlink_message_t_scheme"

text \<open>The gyro accumulation for the optical flow message (lines 531 to 537). The static
  \<^verbatim>\<open>last_dt_us\<close> is initialised from \<^verbatim>\<open>time_usec\<close> when the declaration is first
  reached; \<^verbatim>\<open>dt_us\<close> is the 64-bit difference truncated to 32 bits.\<close>

definition imu_dt_us :: "'b imu_sample \<Rightarrow> ('a, 'b) GazeboMavlinkInterface \<Rightarrow> 32 word" where
  "imu_dt_us imu s =
     (let last = (case last_dt_us s of None \<Rightarrow> ucast (time_usec imu) | Some l \<Rightarrow> l)
      in ucast (time_usec imu - ucast last))"

definition accumulate_gyro ::
  "'b imu_sample \<Rightarrow> ('a, 'b) GazeboMavlinkInterface \<Rightarrow> ('a, 'b) GazeboMavlinkInterface" where
  "accumulate_gyro imu s =
     (let last = (case last_dt_us s of None \<Rightarrow> ucast (time_usec imu) | Some l \<Rightarrow> l);
          dt_us = imu_dt_us imu s
      in if 1000 < dt_us then
           s\<lparr>optflow_gyro :=
                v3_add (optflow_gyro s) (v3_scale (gyro_b imu) (real (unat dt_us) / 1000000)),
             last_dt_us := Some (ucast (time_usec imu))\<rparr>
         else s\<lparr>last_dt_us := Some last\<rparr>)"

definition send_hil_sensor ::
  "('a, 'b, 'c) mavlink_scheme \<Rightarrow> 'b mavlink_message_t_scheme \<Rightarrow>
    ('a, 'b) GazeboMavlinkInterface \<Rightarrow> ('a, 'b) GazeboMavlinkInterface" where
  "send_hil_sensor L msg s =
     (if hil_mode s then (if \<not> hil_state_level s then send_mavlink_message L msg 0 s else s)
      else send_mavlink_message L msg 0 s)"

definition send_hil_state ::
  "('a, 'b, 'c) mavlink_scheme \<Rightarrow> 'b mavlink_message_t_scheme \<Rightarrow>
    ('a, 'b) GazeboMavlinkInterface \<Rightarrow> ('a, 'b) GazeboMavlinkInterface" where
  "send_hil_state L msg s =
     (if hil_mode s then (if hil_state_level s then send_mavlink_message L msg 0 s else s)
      else send_mavlink_message L msg 0 s)"

definition ImuCallback ::
  "('a, 'b, 'c) mavlink_scheme \<Rightarrow> 'b imu_sample \<Rightarrow>
    ('a, 'b) GazeboMavlinkInterface \<Rightarrow> ('a, 'b) GazeboMavlinkInterface" where
  "ImuCallback L imu s =
     (let current_time = sim_time s;
          dt = Double (current_time - last_imu_time s);
          s1 = (if imu_update_interval s \<noteq> 0 \<and> imu_update_interval s \<le> dt then
                  (send_hil_sensor L (hil_sensor_msg imu) (accumulate_gyro imu s))
                    \<lparr>last_imu_time := current_time\<rparr>
                else s)
      in send_hil_state L (hil_state_quaternion_msg imu) s1)"

text \<open>The rate gate of \<^verbatim>\<open>ImuCallback\<close> (line 469).\<close>

definition imu_gate :: "('a, 'b) GazeboMavlinkInterface \<Rightarrow> bool" where
  "imu_gate s \<longleftrightarrow>
     imu_update_interval s \<noteq> 0 \<and> imu_update_interval s \<le> Double (sim_time s - last_imu_time s)"

text \<open>A run of IMU callbacks: before each one the simulator has moved the simulation
  time to the given value.\<close>

definition imu_run ::
  "('a, 'b, 'c) mavlink_scheme \<Rightarrow> (Time \<times> 'b imu_sample) list \<Rightarrow>
    ('a, 'b) GazeboMavlinkInterface \<Rightarrow> ('a, 'b) GazeboMavlinkInterface" where
  "imu_run L events s = fold (\<lambda>(t, imu) s. ImuCallback L imu (s\<lparr>sim_time := t\<rparr>)) events s"

text \<open>\<^verbatim>\<open>OpticalFlowCallback\<close>, given \<^verbatim>\<open>opticalFlow_message->quality()\<close>.\<close>

definition OpticalFlowCallback ::
  "('a, 'b, 'c) mavlink_scheme \<Rightarrow> int \<Rightarrow>
    ('a, 'b) GazeboMavlinkInterface \<Rightarrow> ('a, 'b) GazeboMavlinkInterface" where
  "OpticalFlowCallback L flow_quality s =
     (let sensor_msg =
            \<lparr>integrated_xgyro = (if flow_quality \<noteq> 0 then - v3y (optflow_gyro s) else 0),
             integrated_ygyro = (if flow_quality \<noteq> 0 then v3x (optflow_gyro s) else 0),
             integrated_zgyro = (if flow_quality \<noteq> 0 then - v3z (optflow_gyro s) else 0),
             quality = word_of_int flow_quality\<rparr>;
          s1 = s\<lparr>optflow_gyro := v3_zero\<rparr>
      in send_mavlink_message L (mavlink_msg_hil_optical_flow_encode_chan L sensor_msg) 0 s1)"

subsection \<open>Serial ingestion\<close>

text \<open>The body of the loop of \<^verbatim>\<open>parse_buffer\<close> for one byte \<open>c\<close>. The library works
  on \<^verbatim>\<open>m_buffer\<close> and \<^verbatim>\<open>m_status\<close> in place; \<open>rxmsg\<close> and \<open>status\<close> are their
  values after the call, \<open>rxmsg'\<close> and \<open>status'\<close> after the plugin's reset. The local
  \<^verbatim>\<open>msg_received\<close> (here \<open>result\<close>) keeps the library's result: the reset writes
  \<^verbatim>\<open>m_status.msg_received\<close>, not the local.\<close>

definition parse_char ::
  "('a, 'b, 'c) mavlink_scheme \<Rightarrow> 8 word \<Rightarrow>
    ('a, 'b) GazeboMavlinkInterface \<Rightarrow> ('a, 'b) GazeboMavlinkInterface" where
  "parse_char L c s =
     (case mavlink_frame_char_buffer L (m_buffer s) (m_status s) c of
        (rxmsg, status, message, result) \<Rightarrow>
          (let status' =
                 (if result = bad_crc \<or> result = bad_signature then
                    (let st = (mav_parse_error L status)
                                \<lparr>msg_received := incomplete,
                                 parse_state := MAVLINK_PARSE_STATE_IDLE\<rparr>
                     in if c = MAVLINK_STX then st\<lparr>parse_state := MAVLINK_PARSE_STATE_GOT_STX\<rparr>
                        else st)
                  else status);
               rxmsg' =
                 (if (result = bad_crc \<or> result = bad_signature) \<and> c = MAVLINK_STX
                  then mavlink_start_checksum L (rxmsg\<lparr>len := 0\<rparr>)
                  else rxmsg);
               s2 = s\<lparr>m_status := status', m_buffer := rxmsg'\<rparr>
           in if result \<noteq> incomplete then
                handle_message L message (send_mavlink_message L message (qgc_udp_port s2) s2)
              else s2))"

text \<open>\<^verbatim>\<open>parse_buffer\<close> on the bytes of one completed read. The final \<^verbatim>\<open>do_read()\<close>
  starts the next read and changes no member variable of the record.\<close>

definition parse_buffer ::
  "('a, 'b, 'c) mavlink_scheme \<Rightarrow> 8 word list \<Rightarrow>
    ('a, 'b) GazeboMavlinkInterface \<Rightarrow> failure + ('a, 'b) GazeboMavlinkInterface" where
  "parse_buffer L bytes s =
     (if \<not> length bytes \<le> MAX_SIZE then Inl Assertion_failed
      else Inr (fold (parse_char L) bytes s))"

subsection \<open>Construction and configuration\<close>

text \<open>The constructor's initialiser list and the default member initialisers. Members
  that the constructor leaves uninitialised keep the value they have in the argument.\<close>

definition GazeboMavlinkInterface_new ::
  "('a, 'b) GazeboMavlinkInterface \<Rightarrow> ('a, 'b) GazeboMavlinkInterface" where
  "GazeboMavlinkInterface_new g =
     g\<lparr>received_first_referenc := False,
       input_reference := [],
       input_offset := (\<lambda>i. 0),
       input_scaling := (\<lambda>i. 0),
       zero_position_disarmed := (\<lambda>i. 0),
       zero_position_armed := (\<lambda>i. 0),
       input_index := (\<lambda>i. 0),
       last_time := 0,
       last_imu_time := 0,
       last_actuator_time := 0,
       imu_update_interval := 0.004,
       optflow_gyro := v3_zero,
       last_dt_us := None,
       mavlink_udp_port := kDefaultMavlinkUdpPort,
       qgc_udp_port := kDefaultMavlinkUdpPort,
       m_status := (m_status g)\<lparr>msg_received := incomplete, parse_state := MAVLINK_PARSE_STATE_UNINIT\<rparr>,
       m_buffer := (m_buffer g)\<lparr>len := 0, msgid := 0\<rparr>,
       serial_enabled := False,
       serial_dev_open := False,
       tx_q := [],
       hil_mode := False,
       hil_state_level := False,
       gzerr := [],
       sendto_log := [],
       io_posted := [],
       async_write_some := [],
       motor_velocity_reference_pub := []\<rparr>"

text \<open>The SDF element given to \<^verbatim>\<open>Load\<close>: which child elements it has, what their
  \<^verbatim>\<open>Get\<close> returns (whatever the SDF reader returns for an element that is absent),
  and the \<^verbatim>\<open>channel\<close> children of \<^verbatim>\<open>control_channels\<close> in order.\<close>

record sdf_channel =
  has_input_index :: bool
  ch_input_index :: int
  ch_input_offset :: real
  ch_input_scaling :: real
  ch_zero_position_disarmed :: real
  ch_zero_position_armed :: real

record ElementPtr =
  HasElement :: "string \<Rightarrow> bool"
  Get_bool :: "string \<Rightarrow> bool"
  Get_int :: "string \<Rightarrow> int"
  Get_string :: "string \<Rightarrow> string"
  channels :: "sdf_channel list"

text \<open>What \<^verbatim>\<open>Load\<close> takes from the host: whether the serial device opens, the
  result of \<^verbatim>\<open>inet_addr\<close>, whether \<^verbatim>\<open>socket\<close> succeeds.\<close>

record host =
  serial_open_ok :: bool
  inet_addr :: "string \<Rightarrow> 32 word"
  socket_ok :: bool

text \<open>C++ integer division truncates towards zero.\<close>

definition int_div :: "int \<Rightarrow> int \<Rightarrow> int" where
  "int_div a b = sgn a * sgn b * (\<bar>a\<bar> div \<bar>b\<bar>)"

text \<open>The loop over the \<^verbatim>\<open>channel\<close> elements (lines 77 to 176), for the per-channel
  arrays of the record. \<^verbatim>\<open>index < n_out_max\<close> compares as unsigned, so a negative
  index is out of range.\<close>

fun Load_channels ::
  "sdf_channel list \<Rightarrow> ('a, 'b) GazeboMavlinkInterface \<Rightarrow> ('a, 'b) GazeboMavlinkInterface" where
  "Load_channels [] s = s"
| "Load_channels (channel # rest) s =
     (if has_input_index channel then
        (let index = ch_input_index channel
         in if 0 \<le> index \<and> index < int n_out_max then
              Load_channels rest
                (s\<lparr>input_offset := (input_offset s)(nat index := ch_input_offset channel),
                   input_scaling := (input_scaling s)(nat index := ch_input_scaling channel),
                   zero_position_disarmed :=
                     (zero_position_disarmed s)(nat index := ch_zero_position_disarmed channel),
                   zero_position_armed :=
                     (zero_position_armed s)(nat index := ch_zero_position_armed channel)\<rparr>)
            else Load_channels rest (s\<lparr>gzerr := gzerr s @ [''input_index out of range, not parsing.'']\<rparr>))
      else s\<lparr>gzerr := gzerr s @ [''no input_index, not parsing.'']\<rparr>)"

text \<open>Lines 217 to 225: both assignments are under \<^verbatim>\<open>HasElement("hil_state_level")\<close>.\<close>

definition Load_hil ::
  "ElementPtr \<Rightarrow> ('a, 'b) GazeboMavlinkInterface \<Rightarrow> ('a, 'b) GazeboMavlinkInterface" where
  "Load_hil sdf s =
     (let s1 = (if HasElement sdf ''hil_state_level''
                then s\<lparr>hil_mode := Get_bool sdf ''hil_mode''\<rparr> else s)
      in if HasElement sdf ''hil_state_level''
         then s1\<lparr>hil_state_level := Get_bool sdf ''hil_state_level''\<rparr> else s1)"

text \<open>Lines 227 to 250: the serial parameters and \<^verbatim>\<open>open()\<close>, which logs a failure
  and leaves the device closed.\<close>

definition Load_serial ::
  "host \<Rightarrow> ElementPtr \<Rightarrow> ('a, 'b) GazeboMavlinkInterface \<Rightarrow> ('a, 'b) GazeboMavlinkInterface" where
  "Load_serial h sdf s =
     (let s1 = (if HasElement sdf ''serialEnabled''
                then s\<lparr>serial_enabled := Get_bool sdf ''serialEnabled''\<rparr> else s)
      in if serial_enabled s1 then
           (let s2 = s1\<lparr>io_posted := io_posted s1 @ [Do_read]\<rparr>
            in if serial_open_ok h then s2\<lparr>serial_dev_open := True\<rparr>
               else s2\<lparr>gzerr := gzerr s2 @ [''Error opening serial device: '']\<rparr>)
         else s1)"

text \<open>Lines 252 to 313: the UDP addresses and ports, with the early returns on an
  invalid address string and on a failed \<^verbatim>\<open>socket\<close>.\<close>

definition Load_udp ::
  "host \<Rightarrow> ElementPtr \<Rightarrow> ('a, 'b) GazeboMavlinkInterface \<Rightarrow> ('a, 'b) GazeboMavlinkInterface" where
  "Load_udp h sdf s =
     (let s1 = (if HasElement sdf ''mavlink_addr'' \<and> Get_string sdf ''mavlink_addr'' \<noteq> ''INADDR_ANY''
                then s\<lparr>mavlink_addr := inet_addr h (Get_string sdf ''mavlink_addr'')\<rparr>
                else s\<lparr>mavlink_addr := INADDR_ANY\<rparr>)
      in if HasElement sdf ''mavlink_addr'' \<and> Get_string sdf ''mavlink_addr'' \<noteq> ''INADDR_ANY''
            \<and> mavlink_addr s1 = INADDR_NONE then s1
         else
           (let s2 = (if HasElement sdf ''mavlink_udp_port''
                      then s1\<lparr>mavlink_udp_port := Get_int sdf ''mavlink_udp_port''\<rparr> else s1);
                s3 = (if HasElement sdf ''qgc_addr'' \<and> Get_string sdf ''qgc_addr'' \<noteq> ''INADDR_ANY''
                      then s2\<lparr>qgc_addr := inet_addr h (Get_string sdf ''qgc_addr'')\<rparr>
                      else s2\<lparr>qgc_addr := INADDR_ANY\<rparr>)
            in if HasElement sdf ''qgc_addr'' \<and> Get_string sdf ''qgc_addr'' \<noteq> ''INADDR_ANY''
                  \<and> qgc_addr s3 = INADDR_NONE then s3
               else
                 (let s4 = (if HasElement sdf ''qgc_udp_port''
                            then s3\<lparr>qgc_udp_port := Get_int sdf ''qgc_udp_port''\<rparr> else s3)
                  in if \<not> socket_ok h then s4
                     else if serial_enabled s4 then
                       s4\<lparr>srcaddr := \<lparr>sin_addr = qgc_addr s4, sin_port = htons (qgc_udp_port s4)\<rparr>\<rparr>
                     else
                       s4\<lparr>srcaddr := \<lparr>sin_addr = mavlink_addr s4,
                                       sin_port = htons (mavlink_udp_port s4)\<rparr>\<rparr>)))"

text \<open>\<^verbatim>\<open>Load\<close>, for the member variables of the record. Left out: the topic names, the
  joints and PID controllers, the subscriptions, the bound local address and the socket
  calls after \<^verbatim>\<open>socket\<close>. \<^verbatim>\<open>imu_update_interval_ = 1 / Get<int>()\<close> is an integer
  division.\<close>

definition Load ::
  "host \<Rightarrow> ElementPtr \<Rightarrow> ('a, 'b) GazeboMavlinkInterface \<Rightarrow> failure + ('a, 'b) GazeboMavlinkInterface" where
  "Load h sdf s =
     (let s1 = s\<lparr>input_reference := replicate n_out_max 0\<rparr>;
          s2 = (if HasElement sdf ''control_channels'' then Load_channels (channels sdf) s1 else s1);
          s3 = s2\<lparr>last_time := sim_time s2, last_imu_time := sim_time s2\<rparr>
      in if HasElement sdf ''imu_rate'' \<and> Get_int sdf ''imu_rate'' = 0 then Inl Division_by_zero
         else
           (let s4 = (if HasElement sdf ''imu_rate''
                      then s3\<lparr>imu_update_interval := real_of_int (int_div 1 (Get_int sdf ''imu_rate''))\<rparr>
                      else s3)
            in Inr (Load_udp h sdf (Load_serial h sdf (Load_hil sdf s4)))))"

subsection \<open>A MAVLink v2 frame decoder\<close>

text \<open>Modelled from the spec: the MAVLink library (\<^verbatim>\<open>mavlink/v2.0/common/mavlink.h\<close>) is
  not among the source files. This is the Frame Decoder of the spec's section 4.1 on the
  wire format of its section 6, "MAVLink v2 binary framing (start marker, length,
  sequence, system/component id, message id, payload, CRC-16, optional signature)", with
  the parse phases "idle / got-start / got-length / ... / got-crc": the header fields are
  accumulated one byte at a time, then a payload of the length the header declares (which
  may be zero), then the two checksum bytes; the last byte gives \<open>ok\<close> or \<open>bad_crc\<close>
  and returns the parser to idle. The header layout and the checksum are those of
  MAVLink v2, which the spec requires bit-exactly. Signed frames and MAVLink v1 frames are
  not modelled. It is used to run the plugin on concrete bytes; the theorems about the
  plugin hold for every library.\<close>

record mavlink_status_v2 = mavlink_status_t +
  parse_error :: nat

record mavlink_message_v2 = mavlink_message_t +
  checksum :: "16 word"
  magic :: "8 word"
  incompat_flags :: "8 word"
  compat_flags :: "8 word"
  seq :: "8 word"
  sysid :: "8 word"
  compid :: "8 word"
  payload :: "8 word list"
  ck :: "8 word list"

definition X25_INIT_CRC :: "16 word" where
  "X25_INIT_CRC = 65535"

definition crc_accumulate :: "8 word \<Rightarrow> 16 word \<Rightarrow> 16 word" where
  "crc_accumulate d crcAccum =
     (let tmp0 = d XOR ucast (crcAccum AND 255);
          tmp = tmp0 XOR push_bit 4 tmp0
      in drop_bit 8 crcAccum XOR push_bit 8 (ucast tmp) XOR push_bit 3 (ucast tmp)
           XOR drop_bit 4 (ucast tmp))"

definition v2_update_checksum :: "mavlink_message_v2 \<Rightarrow> 8 word \<Rightarrow> mavlink_message_v2" where
  "v2_update_checksum m c = m\<lparr>checksum := crc_accumulate c (checksum m)\<rparr>"

text \<open>The per-message seed that MAVLink v2 adds to the checksum: 50 for HEARTBEAT
  (message id 0) and 47 for HIL_ACTUATOR_CONTROLS (message id 93), the messages of the
  example frames; 0 for an unknown id.\<close>

definition crc_extra :: "nat \<Rightarrow> 8 word" where
  "crc_extra mid = (if mid = 0 then 50 else if mid = 93 then 47 else 0)"

definition v2_start_checksum :: "mavlink_message_v2 \<Rightarrow> mavlink_message_v2" where
  "v2_start_checksum m = m\<lparr>checksum := X25_INIT_CRC\<rparr>"

definition v2_parse_error :: "mavlink_status_v2 \<Rightarrow> mavlink_status_v2" where
  "v2_parse_error st = st\<lparr>parse_error := parse_error st + 1\<rparr>"

definition v2_frame_char_buffer ::
  "mavlink_message_v2 \<Rightarrow> mavlink_status_v2 \<Rightarrow> 8 word \<Rightarrow>
     mavlink_message_v2 \<times> mavlink_status_v2 \<times> mavlink_message_v2 \<times> Framing" where
  "v2_frame_char_buffer rxmsg status0 c =
     (let status = status0\<lparr>msg_received := incomplete\<rparr>;
          next = (\<lambda>m p. (m, status\<lparr>parse_state := p\<rparr>, m, incomplete))
      in case parse_state status of
           MAVLINK_PARSE_STATE_GOT_STX \<Rightarrow>
             next (v2_update_checksum (rxmsg\<lparr>len := c, payload := []\<rparr>) c)
                  MAVLINK_PARSE_STATE_GOT_LENGTH
         | MAVLINK_PARSE_STATE_GOT_LENGTH \<Rightarrow>
             next (v2_update_checksum (rxmsg\<lparr>incompat_flags := c\<rparr>) c)
                  MAVLINK_PARSE_STATE_GOT_INCOMPAT_FLAGS
         | MAVLINK_PARSE_STATE_GOT_INCOMPAT_FLAGS \<Rightarrow>
             next (v2_update_checksum (rxmsg\<lparr>compat_flags := c\<rparr>) c)
                  MAVLINK_PARSE_STATE_GOT_COMPAT_FLAGS
         | MAVLINK_PARSE_STATE_GOT_COMPAT_FLAGS \<Rightarrow>
             next (v2_update_checksum (rxmsg\<lparr>seq := c\<rparr>) c) MAVLINK_PARSE_STATE_GOT_SEQ
         | MAVLINK_PARSE_STATE_GOT_SEQ \<Rightarrow>
             next (v2_update_checksum (rxmsg\<lparr>sysid := c\<rparr>) c) MAVLINK_PARSE_STATE_GOT_SYSID
         | MAVLINK_PARSE_STATE_GOT_SYSID \<Rightarrow>
             next (v2_update_checksum (rxmsg\<lparr>compid := c\<rparr>) c) MAVLINK_PARSE_STATE_GOT_COMPID
         | MAVLINK_PARSE_STATE_GOT_COMPID \<Rightarrow>
             next (v2_update_checksum (rxmsg\<lparr>msgid := unat c\<rparr>) c) MAVLINK_PARSE_STATE_GOT_MSGID1
         | MAVLINK_PARSE_STATE_GOT_MSGID1 \<Rightarrow>
             next (v2_update_checksum (rxmsg\<lparr>msgid := msgid rxmsg + 256 * unat c\<rparr>) c)
                  MAVLINK_PARSE_STATE_GOT_MSGID2
         | MAVLINK_PARSE_STATE_GOT_MSGID2 \<Rightarrow>
             next (v2_update_checksum (rxmsg\<lparr>msgid := msgid rxmsg + 65536 * unat c\<rparr>) c)
                  (if len rxmsg = 0 then MAVLINK_PARSE_STATE_GOT_PAYLOAD
                   else MAVLINK_PARSE_STATE_GOT_MSGID3)
         | MAVLINK_PARSE_STATE_GOT_MSGID3 \<Rightarrow>
             next (v2_update_checksum (rxmsg\<lparr>payload := payload rxmsg @ [c]\<rparr>) c)
                  (if length (payload rxmsg) + 1 = unat (len rxmsg)
                   then MAVLINK_PARSE_STATE_GOT_PAYLOAD else MAVLINK_PARSE_STATE_GOT_MSGID3)
         | MAVLINK_PARSE_STATE_GOT_PAYLOAD \<Rightarrow>
             (let m = (v2_update_checksum rxmsg (crc_extra (msgid rxmsg)))\<lparr>ck := [c]\<rparr>
              in next m (if c \<noteq> ucast (checksum m AND 255) then MAVLINK_PARSE_STATE_GOT_BAD_CRC1
                         else MAVLINK_PARSE_STATE_GOT_CRC1))
         | MAVLINK_PARSE_STATE_GOT_CRC1 \<Rightarrow>
             (let m = rxmsg\<lparr>ck := ck rxmsg @ [c]\<rparr>;
                  result = (if c \<noteq> ucast (drop_bit 8 (checksum rxmsg)) then bad_crc else ok)
              in (m, status\<lparr>msg_received := result, parse_state := MAVLINK_PARSE_STATE_IDLE\<rparr>,
                  m, result))
         | MAVLINK_PARSE_STATE_GOT_BAD_CRC1 \<Rightarrow>
             (let m = rxmsg\<lparr>ck := ck rxmsg @ [c]\<rparr>
              in (m, status\<lparr>msg_received := bad_crc, parse_state := MAVLINK_PARSE_STATE_IDLE\<rparr>,
                  m, bad_crc))
         | _ \<Rightarrow>
             (if c = MAVLINK_STX then
                next (v2_start_checksum (rxmsg\<lparr>len := 0, magic := c\<rparr>)) MAVLINK_PARSE_STATE_GOT_STX
              else (rxmsg, status, rxmsg, incomplete)))"

definition v2_msg_to_send_buffer :: "mavlink_message_v2 \<Rightarrow> 8 word list" where
  "v2_msg_to_send_buffer m =
     [magic m, len m, incompat_flags m, compat_flags m, seq m, sysid m, compid m,
      word_of_nat (msgid m), word_of_nat (msgid m div 256), word_of_nat (msgid m div 65536)]
     @ payload m @ ck m"

text \<open>The library with this decoder. The layout of the floating-point payload fields is
  not modelled, so the two payload conversions are arguments.\<close>

definition mavlink_v2 ::
  "(mavlink_message_v2 \<Rightarrow> mavlink_hil_actuator_controls_t) \<Rightarrow>
   (mavlink_hil_optical_flow_t \<Rightarrow> mavlink_message_v2) \<Rightarrow>
   (unit mavlink_status_v2_ext, unit mavlink_message_v2_ext) mavlink" where
  "mavlink_v2 decode_controls encode_flow =
     \<lparr>mavlink_frame_char_buffer = v2_frame_char_buffer,
      mav_parse_error = v2_parse_error,
      mavlink_start_checksum = v2_start_checksum,
      mavlink_msg_to_send_buffer = v2_msg_to_send_buffer,
      mavlink_msg_hil_actuator_controls_decode = decode_controls,
      mavlink_msg_hil_optical_flow_encode_chan = encode_flow\<rparr>"

subsection \<open>Example inputs\<close>

text \<open>A plugin object before construction, around a given receive status and buffer.\<close>

definition raw_object ::
  "'a mavlink_status_t_scheme \<Rightarrow> 'b mavlink_message_t_scheme \<Rightarrow> ('a, 'b) GazeboMavlinkInterface" where
  "raw_object st mb =
     \<lparr>received_first_referenc = False, input_reference = [], input_offset = (\<lambda>i. 0),
      input_scaling = (\<lambda>i. 0), zero_position_disarmed = (\<lambda>i. 0), zero_position_armed = (\<lambda>i. 0),
      input_index = (\<lambda>i. 0), last_time = 0, last_imu_time = 0, last_actuator_time = 0,
      imu_update_interval = 0, srcaddr = \<lparr>sin_addr = 0, sin_port = 0\<rparr>, optflow_gyro = v3_zero,
      last_dt_us = None, mavlink_addr = 0, mavlink_udp_port = 0, qgc_addr = 0, qgc_udp_port = 0,
      m_status = st, m_buffer = mb, serial_enabled = False, serial_dev_open = False,
      tx_in_progress = False, tx_q = [], hil_mode = False, hil_state_level = False, sim_time = 0,
      gzerr = [], sendto_log = [], io_posted = [], async_write_some = [],
      motor_velocity_reference_pub = []\<rparr>"

text \<open>Two well-formed MAVLink v2 frames with an empty payload: HEARTBEAT with sequence
  numbers 0 and 1 from system 1, component 1.\<close>

definition heartbeat0 :: mavlink_message_v2 where
  "heartbeat0 =
     \<lparr>len = 0, msgid = 0, checksum = 33145, magic = 253, incompat_flags = 0, compat_flags = 0,
      seq = 0, sysid = 1, compid = 1, payload = [], ck = [121, 129]\<rparr>"

definition heartbeat1 :: mavlink_message_v2 where
  "heartbeat1 =
     \<lparr>len = 0, msgid = 0, checksum = 7852, magic = 253, incompat_flags = 0, compat_flags = 0,
      seq = 1, sysid = 1, compid = 1, payload = [], ck = [172, 30]\<rparr>"

text \<open>A library whose actuator-control decoder returns the raw control 100 on every
  channel with mode 128, and whose optical-flow encoder returns a fixed frame.\<close>

definition mavlink_example ::
  "(unit mavlink_status_v2_ext, unit mavlink_message_v2_ext) mavlink" where
  "mavlink_example =
     mavlink_v2 (\<lambda>m. \<lparr>controls = (\<lambda>i. 100), mode = 128\<rparr>) (\<lambda>f. heartbeat0\<lparr>msgid := 114\<rparr>)"

definition new_plugin ::
  "(unit mavlink_status_v2_ext, unit mavlink_message_v2_ext) GazeboMavlinkInterface" where
  "new_plugin =
     GazeboMavlinkInterface_new
       (raw_object
          \<lparr>msg_received = incomplete, parse_state = MAVLINK_PARSE_STATE_UNINIT, parse_error = 0\<rparr>
          (heartbeat0\<lparr>ck := []\<rparr>))"

text \<open>The plugin with the serial transport enabled and the device open; the same with
  \<open>MAX_TXQ_SIZE\<close> frames pending; with the device closed; and after two frames have
  been enqueued and the posted \<^verbatim>\<open>do_write(true)\<close> has started the first write.\<close>

definition serial_plugin ::
  "(unit mavlink_status_v2_ext, unit mavlink_message_v2_ext) GazeboMavlinkInterface" where
  "serial_plugin =
     new_plugin\<lparr>serial_enabled := True, serial_dev_open := True, tx_in_progress := False\<rparr>"

definition txq_full ::
  "(unit mavlink_status_v2_ext, unit mavlink_message_v2_ext) GazeboMavlinkInterface" where
  "txq_full = serial_plugin\<lparr>tx_q := replicate 1000 (MsgBuffer_of mavlink_example heartbeat0)\<rparr>"

definition serial_closed ::
  "(unit mavlink_status_v2_ext, unit mavlink_message_v2_ext) GazeboMavlinkInterface" where
  "serial_closed = new_plugin\<lparr>serial_enabled := True\<rparr>"

definition tx_started ::
  "(unit mavlink_status_v2_ext, unit mavlink_message_v2_ext) GazeboMavlinkInterface" where
  "tx_started =
     do_write True (send_mavlink_message mavlink_example heartbeat1 0
       (send_mavlink_message mavlink_example heartbeat0 0 serial_plugin))"

text \<open>A message with the id of HIL_ACTUATOR_CONTROLS (the example library decodes it to
  the raw control 100 with mode 128); a library that decodes it with mode 0; a plugin
  whose channels have scaling 1 and disarmed zero position 7; the same plugin 0.3 seconds
  after an actuator-control message was handled at 1 second, and at 1.1 seconds.\<close>

definition actuator_msg :: mavlink_message_v2 where
  "actuator_msg = heartbeat0\<lparr>msgid := 93\<rparr>"

definition mavlink_disarmed ::
  "(unit mavlink_status_v2_ext, unit mavlink_message_v2_ext) mavlink" where
  "mavlink_disarmed =
     mavlink_v2 (\<lambda>m. \<lparr>controls = (\<lambda>i. 100), mode = 0\<rparr>) (\<lambda>f. heartbeat0\<lparr>msgid := 114\<rparr>)"

definition actuator_plugin ::
  "(unit mavlink_status_v2_ext, unit mavlink_message_v2_ext) GazeboMavlinkInterface" where
  "actuator_plugin =
     new_plugin\<lparr>input_scaling := (\<lambda>i. 1), zero_position_disarmed := (\<lambda>i. 7)\<rparr>"

definition actuator_stale ::
  "(unit mavlink_status_v2_ext, unit mavlink_message_v2_ext) GazeboMavlinkInterface" where
  "actuator_stale =
     (handle_message mavlink_example actuator_msg (actuator_plugin\<lparr>sim_time := 1000000000\<rparr>))
       \<lparr>sim_time := 1300000000\<rparr>"

definition actuator_fresh ::
  "(unit mavlink_status_v2_ext, unit mavlink_message_v2_ext) GazeboMavlinkInterface" where
  "actuator_fresh = actuator_stale\<lparr>sim_time := 1100000000\<rparr>"

text \<open>IMU samples with the gyro vector (1, 2, -2) at 5, 10 and 15 milliseconds, carrying
  two messages with the ids of HIL_SENSOR (107) and HIL_STATE_QUATERNION (115) and an
  empty payload.\<close>

definition imu_at :: "64 word \<Rightarrow> unit mavlink_message_v2_ext imu_sample" where
  "imu_at usec =
     \<lparr>time_usec = usec, gyro_b = \<lparr>v3x = 1, v3y = 2, v3z = - 2\<rparr>,
      hil_sensor_msg = heartbeat0\<lparr>msgid := 107\<rparr>,
      hil_state_quaternion_msg = heartbeat1\<lparr>msgid := 115\<rparr>\<rparr>"

definition imu_events :: "(Time \<times> unit mavlink_message_v2_ext imu_sample) list" where
  "imu_events = [(5000000, imu_at 5000), (10000000, imu_at 10000), (15000000, imu_at 15000)]"

text \<open>Two IMU samples 1 ms apart, at 1 ms and at 2 ms.\<close>

definition imu_events_1ms :: "(Time \<times> unit mavlink_message_v2_ext imu_sample) list" where
  "imu_events_1ms = [(1000000, imu_at 1000), (2000000, imu_at 2000)]"

text \<open>The new plugin (update interval 4 ms, last sensor emission at 0) at 5 ms of
  simulation time; the same with the serial transport enabled and the device open; and
  with the update interval set to zero.\<close>

definition imu_due ::
  "(unit mavlink_status_v2_ext, unit mavlink_message_v2_ext) GazeboMavlinkInterface" where
  "imu_due = new_plugin\<lparr>sim_time := 5000000\<rparr>"

definition serial_due ::
  "(unit mavlink_status_v2_ext, unit mavlink_message_v2_ext) GazeboMavlinkInterface" where
  "serial_due = serial_plugin\<lparr>sim_time := 5000000\<rparr>"

definition imu_zero_interval ::
  "(unit mavlink_status_v2_ext, unit mavlink_message_v2_ext) GazeboMavlinkInterface" where
  "imu_zero_interval = new_plugin\<lparr>sim_time := 5000000, imu_update_interval := 0\<rparr>"

text \<open>Bytes from the serial device: a HEARTBEAT frame (sequence 0) whose second
  checksum byte, 129, has been replaced by 253, the start marker; a HIL_ACTUATOR_CONTROLS
  frame whose second checksum byte, 20, has been replaced likewise; and the corrupted
  HEARTBEAT frame followed by the rest of a well-formed HEARTBEAT frame (sequence 1), so
  that the replaced byte is the start marker of the well-formed frame.\<close>

definition corrupted_frame :: "8 word list" where
  "corrupted_frame = [253, 0, 0, 0, 0, 1, 1, 0, 0, 0, 121, 253]"

definition corrupted_actuator_frame :: "8 word list" where
  "corrupted_actuator_frame = [253, 0, 0, 0, 0, 1, 1, 93, 0, 0, 132, 253]"

definition corrupted_then_good :: "8 word list" where
  "corrupted_then_good = corrupted_frame @ [0, 0, 0, 1, 1, 1, 0, 0, 0, 172, 30]"

text \<open>A host on which the serial device opens and \<^verbatim>\<open>socket\<close> succeeds.\<close>

definition good_host :: host where
  "good_host = \<lparr>serial_open_ok = True, inet_addr = (\<lambda>a. 16777343), socket_ok = True\<rparr>"

text \<open>A plugin element with \<^verbatim>\<open><hil_mode>true</hil_mode>\<close> and nothing else.\<close>

definition sdf_hil_mode_only :: ElementPtr where
  "sdf_hil_mode_only =
     \<lparr>HasElement = (\<lambda>name. name = ''hil_mode''), Get_bool = (\<lambda>name. name = ''hil_mode''),
      Get_int = (\<lambda>name. 0), Get_string = (\<lambda>name. []), channels = []\<rparr>"

section \<open>Configuration loading\<close>

lemma Load_udp_hil [simp]:
  "hil_mode (Load_udp h sdf s) = hil_mode s"
  "hil_state_level (Load_udp h sdf s) = hil_state_level s"
  by (simp_all add: Load_udp_def Let_def)

lemma Load_serial_hil [simp]:
  "hil_mode (Load_serial h sdf s) = hil_mode s"
  "hil_state_level (Load_serial h sdf s) = hil_state_level s"
  by (simp_all add: Load_serial_def Let_def)

lemma Load_channels_hil [simp]:
  "hil_mode (Load_channels cs s) = hil_mode s"
  "hil_state_level (Load_channels cs s) = hil_state_level s"
  by (induction cs s rule: Load_channels.induct; simp add: Let_def)+

text \<open>
  Claim C9. In \<^verbatim>\<open>Load\<close> the assignments of \<^verbatim>\<open>hil_mode_\<close> and of
  \<^verbatim>\<open>hil_state_level_\<close> are both under \<^verbatim>\<open>HasElement("hil_state_level")\<close>: when the
  element is present both options are read, and when it is absent both keep the
  constructor's \<open>False\<close>, whether or not a \<^verbatim>\<open>hil_mode\<close> element is present. \<^verbatim>\<open>Load\<close>
  returns unless \<^verbatim>\<open>imu_rate\<close> is present and zero.
\<close>

theorem Load_hil_mode_guarded_by_hil_state_level:
  assumes "HasElement sdf ''imu_rate'' \<longrightarrow> Get_int sdf ''imu_rate'' \<noteq> 0"
  shows "\<exists>s'. Load h sdf (GazeboMavlinkInterface_new g) = Inr s' \<and>
      (if HasElement sdf ''hil_state_level''
       then hil_mode s' = Get_bool sdf ''hil_mode''
          \<and> hil_state_level s' = Get_bool sdf ''hil_state_level''
       else hil_mode s' = False \<and> hil_state_level s' = False)"
  using assms by (simp add: Load_def Let_def Load_hil_def GazeboMavlinkInterface_new_def)

theorem Load_hil_mode_guarded_by_hil_state_level_witness:
  "HasElement sdf_hil_mode_only ''hil_mode'' \<and> Get_bool sdf_hil_mode_only ''hil_mode''
   \<and> \<not> HasElement sdf_hil_mode_only ''hil_state_level''
   \<and> (\<exists>s'. Load good_host sdf_hil_mode_only (GazeboMavlinkInterface_new new_plugin) = Inr s'
          \<and> hil_mode s' = False \<and> hil_state_level s' = False)"
  using Load_hil_mode_guarded_by_hil_state_level [of sdf_hil_mode_only good_host new_plugin]
  by (simp add: sdf_hil_mode_only_def)

section \<open>The serial transmit queue\<close>

lemma send_mavlink_message_serial:
  "serial_enabled s \<Longrightarrow> serial_dev_open s \<Longrightarrow>
   send_mavlink_message L message 0 s =
     s\<lparr>tx_q := tx_q s @ [MsgBuffer_of L message], io_posted := io_posted s @ [Do_write True]\<rparr>"
  by (simp add: send_mavlink_message_def)

lemma fold_send_mavlink_message_serial:
  "serial_enabled s \<Longrightarrow> serial_dev_open s \<Longrightarrow>
   tx_q (fold (\<lambda>m. send_mavlink_message L m 0) msgs s) = tx_q s @ map (MsgBuffer_of L) msgs"
proof (induction msgs arbitrary: s)
  case Nil
  then show ?case by simp
next
  case (Cons m msgs)
  have "tx_q (fold (\<lambda>m. send_mavlink_message L m 0) msgs (send_mavlink_message L m 0 s))
      = tx_q (send_mavlink_message L m 0 s) @ map (MsgBuffer_of L) msgs"
    by (rule Cons.IH) (simp_all add: send_mavlink_message_serial Cons.prems)
  then show ?case
    by (simp add: send_mavlink_message_serial Cons.prems)
qed

lemma txq_full_facts:
  "serial_enabled txq_full" "serial_dev_open txq_full" "length (tx_q txq_full) = 1000"
  by (simp_all add: txq_full_def serial_plugin_def)

lemma do_write_handler_success:
  assumes "tx_q s = buf_ref # rest" and "0 \<le> pos buf_ref" and "int n \<le> nbytes buf_ref"
  shows "do_write_handler False n s = Inr
     (if pos buf_ref + int n = buf_len buf_ref then
        (case rest of
           [] \<Rightarrow> s\<lparr>tx_q := [], tx_in_progress := False\<rparr>
         | next_ref # _ \<Rightarrow>
             s\<lparr>tx_q := rest, tx_in_progress := True,
               async_write_some := async_write_some s @ [take (nat (nbytes next_ref)) (dpos next_ref)]\<rparr>)
      else
        s\<lparr>tx_q := buf_ref\<lparr>pos := pos buf_ref + int n\<rparr> # rest, tx_in_progress := True,
          async_write_some := async_write_some s @
            [take (nat (buf_len buf_ref - (pos buf_ref + int n)))
                  (drop (nat (pos buf_ref + int n)) (data buf_ref))]\<rparr>)"
  using assms
  by (cases rest) (simp_all add: do_write_handler_def do_write_def nbytes_def dpos_def Let_def)

lemma MsgBuffer_of_heartbeat:
  "MsgBuffer_of mavlink_example heartbeat0
     = \<lparr>data = [253, 0, 0, 0, 0, 1, 1, 0, 0, 0, 121, 129], buf_len = 12, pos = 0\<rparr>"
  "MsgBuffer_of mavlink_example heartbeat1
     = \<lparr>data = [253, 0, 0, 0, 1, 1, 1, 0, 0, 0, 172, 30], buf_len = 12, pos = 0\<rparr>"
  by (simp_all add: MsgBuffer_of_def mavlink_example_def mavlink_v2_def v2_msg_to_send_buffer_def
        heartbeat0_def heartbeat1_def)

lemma fold_send_mavlink_message_frame:
  "serial_enabled s \<Longrightarrow> serial_dev_open s \<Longrightarrow>
   tx_in_progress (fold (\<lambda>m. send_mavlink_message L m 0) msgs s) = tx_in_progress s
   \<and> async_write_some (fold (\<lambda>m. send_mavlink_message L m 0) msgs s) = async_write_some s"
proof (induction msgs arbitrary: s)
  case Nil
  then show ?case by simp
next
  case (Cons m msgs)
  have "tx_in_progress (fold (\<lambda>m. send_mavlink_message L m 0) msgs (send_mavlink_message L m 0 s))
          = tx_in_progress (send_mavlink_message L m 0 s)
      \<and> async_write_some (fold (\<lambda>m. send_mavlink_message L m 0) msgs (send_mavlink_message L m 0 s))
          = async_write_some (send_mavlink_message L m 0 s)"
    by (rule Cons.IH) (simp_all add: send_mavlink_message_serial Cons.prems)
  then show ?case
    by (simp add: send_mavlink_message_serial Cons.prems)
qed

text \<open>With a write of the front frame in flight and every queued frame unwritten, as
  many full completions as there are frames hand the remaining frames to the device in
  queue order and leave the queue empty with no write in progress.\<close>

lemma complete_writes_in_flight:
  assumes "tx_q s = b # q"
      and "\<forall>f\<in>set (b # q). pos f = 0 \<and> buf_len f = int (length (data f))"
  shows "complete_writes (length (b # q)) s =
           Inr (s\<lparr>tx_q := [], tx_in_progress := False,
                  async_write_some := async_write_some s @ map data q\<rparr>)"
  using assms
proof (induction q arbitrary: s b)
  case Nil
  then have "do_write_handler False (nat (nbytes b)) s = Inr (s\<lparr>tx_q := [], tx_in_progress := False\<rparr>)"
    using do_write_handler_success [of s b "[]" "nat (nbytes b)"]
    by (simp add: nbytes_def)
  then show ?case
    using Nil by (simp add: complete_write_def)
next
  case (Cons f q)
  let ?s' = "s\<lparr>tx_q := f # q, tx_in_progress := True,
                async_write_some := async_write_some s @ [data f]\<rparr>"
  have "do_write_handler False (nat (nbytes b)) s = Inr ?s'"
    using do_write_handler_success [of s b "f # q" "nat (nbytes b)"] Cons.prems
    by (simp add: nbytes_def dpos_def)
  then have "complete_writes (length (b # f # q)) s = complete_writes (length (f # q)) ?s'"
    using Cons.prems by (simp add: complete_write_def)
  also have "\<dots> = Inr (?s'\<lparr>tx_q := [], tx_in_progress := False,
                            async_write_some := async_write_some ?s' @ map data q\<rparr>)"
    by (rule Cons.IH) (use Cons.prems in simp_all)
  finally show ?case by simp
qed

lemma complete_writes_after_send:
  assumes "serial_enabled s" and "serial_dev_open s"
      and "tx_q s = []" and "\<not> tx_in_progress s" and "msgs \<noteq> []"
  shows "complete_writes (length msgs)
           (do_write True (fold (\<lambda>m. send_mavlink_message L m 0) msgs s)) =
         Inr ((fold (\<lambda>m. send_mavlink_message L m 0) msgs s)
                \<lparr>tx_q := [], tx_in_progress := False,
                 async_write_some :=
                   async_write_some s @ map (mavlink_msg_to_send_buffer L) msgs\<rparr>)"
proof -
  let ?s1 = "fold (\<lambda>m. send_mavlink_message L m 0) msgs s"
  obtain m ms where msgs: "msgs = m # ms"
    using assms(5) by (cases msgs) auto
  have q: "tx_q ?s1 = MsgBuffer_of L m # map (MsgBuffer_of L) ms"
    using fold_send_mavlink_message_serial [OF assms(1,2), of L msgs] assms(3) msgs by simp
  have p: "\<not> tx_in_progress ?s1" and a: "async_write_some ?s1 = async_write_some s"
    using fold_send_mavlink_message_frame [OF assms(1,2), of L msgs] assms(4) by simp_all
  let ?s2 = "?s1\<lparr>tx_in_progress := True,
                  async_write_some := async_write_some s @ [mavlink_msg_to_send_buffer L m]\<rparr>"
  have w: "do_write True ?s1 = ?s2"
    using p by (simp add: do_write_def q a MsgBuffer_of_def nbytes_def dpos_def)
  have len: "length msgs = length (MsgBuffer_of L m # map (MsgBuffer_of L) ms)"
    using msgs by simp
  have "complete_writes (length msgs) (do_write True ?s1)
      = complete_writes (length (MsgBuffer_of L m # map (MsgBuffer_of L) ms)) ?s2"
    by (simp only: w len)
  also have "\<dots> =
          Inr (?s2\<lparr>tx_q := [], tx_in_progress := False,
                   async_write_some := async_write_some ?s2 @ map data (map (MsgBuffer_of L) ms)\<rparr>)"
    by (rule complete_writes_in_flight) (auto simp add: q MsgBuffer_of_def)
  also have "?s2\<lparr>tx_q := [], tx_in_progress := False,
                 async_write_some := async_write_some ?s2 @ map data (map (MsgBuffer_of L) ms)\<rparr>
      = ?s1\<lparr>tx_q := [], tx_in_progress := False,
             async_write_some := async_write_some s @ map (mavlink_msg_to_send_buffer L) msgs\<rparr>"
    by (simp add: msgs MsgBuffer_of_def comp_def)
  finally show ?thesis .
qed

lemma example_facts:
  "serial_enabled serial_plugin" "serial_dev_open serial_plugin"
  "serial_enabled serial_closed" "\<not> serial_dev_open serial_closed"
  "\<not> serial_enabled new_plugin"
  by (simp_all add: serial_plugin_def serial_closed_def new_plugin_def
        GazeboMavlinkInterface_new_def)

text \<open>
  Claim C1, as the code has it. The test of the queue length against \<open>MAX_TXQ_SIZE\<close>
  has no effect: with the serial transport enabled and the device open, a frame sent
  without a destination port is appended at the tail of the transmit queue whatever the
  number of pending frames, so enqueuing any number of frames leaves all of them queued
  behind the pending ones, in the order they were enqueued. Enqueued on an idle empty
  queue and drained by full writes, all of them are handed to the device, in that order.
\<close>

theorem send_mavlink_message_appends_at_any_length:
  assumes "serial_enabled s" and "serial_dev_open s"
  shows "tx_q (send_mavlink_message L message 0 s) = tx_q s @ [MsgBuffer_of L message]
       \<and> tx_q (fold (\<lambda>m. send_mavlink_message L m 0) msgs s) = tx_q s @ map (MsgBuffer_of L) msgs
       \<and> (tx_q s = [] \<and> \<not> tx_in_progress s \<and> msgs \<noteq> [] \<longrightarrow>
            complete_writes (length msgs)
              (do_write True (fold (\<lambda>m. send_mavlink_message L m 0) msgs s)) =
            Inr ((fold (\<lambda>m. send_mavlink_message L m 0) msgs s)
                   \<lparr>tx_q := [], tx_in_progress := False,
                    async_write_some :=
                      async_write_some s @ map (mavlink_msg_to_send_buffer L) msgs\<rparr>))"
  using assms
  by (simp add: send_mavlink_message_serial fold_send_mavlink_message_serial
        complete_writes_after_send)

lemma serial_plugin_facts:
  "serial_enabled serial_plugin" "serial_dev_open serial_plugin" "tx_q serial_plugin = []"
  "\<not> tx_in_progress serial_plugin" "async_write_some serial_plugin = []"
  by (simp_all add: serial_plugin_def new_plugin_def GazeboMavlinkInterface_new_def)

text \<open>With 1000 frames pending, two more frames make 1002. On the idle empty queue, two
  frames are enqueued and two full writes hand both to the device, in order.\<close>

theorem send_mavlink_message_appends_at_any_length_witness:
  "serial_enabled txq_full \<and> serial_dev_open txq_full \<and> MAX_TXQ_SIZE \<le> length (tx_q txq_full)
   \<and> tx_q (send_mavlink_message mavlink_example heartbeat1 0 txq_full)
       = tx_q txq_full @ [MsgBuffer_of mavlink_example heartbeat1]
   \<and> tx_q (fold (\<lambda>m. send_mavlink_message mavlink_example m 0) [heartbeat0, heartbeat1] txq_full)
       = tx_q txq_full @ map (MsgBuffer_of mavlink_example) [heartbeat0, heartbeat1]
   \<and> complete_writes 2
        (do_write True
           (fold (\<lambda>m. send_mavlink_message mavlink_example m 0) [heartbeat0, heartbeat1]
              serial_plugin)) =
      Inr ((fold (\<lambda>m. send_mavlink_message mavlink_example m 0) [heartbeat0, heartbeat1]
              serial_plugin)
             \<lparr>tx_q := [], tx_in_progress := False,
              async_write_some := [[253, 0, 0, 0, 0, 1, 1, 0, 0, 0, 121, 129],
                                   [253, 0, 0, 0, 1, 1, 1, 0, 0, 0, 172, 30]]\<rparr>)"
proof -
  have w: "mavlink_msg_to_send_buffer mavlink_example heartbeat0
             = [253, 0, 0, 0, 0, 1, 1, 0, 0, 0, 121, 129]"
    "mavlink_msg_to_send_buffer mavlink_example heartbeat1
             = [253, 0, 0, 0, 1, 1, 1, 0, 0, 0, 172, 30]"
    by (simp_all add: mavlink_example_def mavlink_v2_def v2_msg_to_send_buffer_def heartbeat0_def
          heartbeat1_def)
  show ?thesis
    using send_mavlink_message_appends_at_any_length
            [of txq_full mavlink_example heartbeat1 "[heartbeat0, heartbeat1]"]
          send_mavlink_message_appends_at_any_length
            [of serial_plugin mavlink_example heartbeat1 "[heartbeat0, heartbeat1]"]
    by (simp add: txq_full_facts serial_plugin_facts MAX_TXQ_SIZE_def w numeral_2_eq_2)
qed

text \<open>
  Claim C1 as stated fails: with \<open>MAX_TXQ_SIZE\<close> frames pending, a further frame is not
  dropped; the queue grows to 1001 frames.
\<close>

theorem send_mavlink_message_overflow_counterexample:
  "MAX_TXQ_SIZE \<le> length (tx_q txq_full)
   \<and> tx_q (send_mavlink_message mavlink_example heartbeat1 0 txq_full) \<noteq> tx_q txq_full
   \<and> length (tx_q (send_mavlink_message mavlink_example heartbeat1 0 txq_full)) = 1001"
  by (simp add: send_mavlink_message_serial txq_full_facts MAX_TXQ_SIZE_def)

text \<open>
  Claim C4. A write of the front frame completes without error having written \<open>n\<close>
  bytes, no more than the \<^verbatim>\<open>nbytes()\<close> it was given. The handler returns with the
  front frame's cursor advanced by exactly \<open>n\<close>. If the cursor then equals the frame's
  length the front frame is popped; if the queue is then not empty the write of the new
  front frame, from its cursor, is started in the same call and a write stays in
  progress; if it is empty, no write is in progress. If the cursor has not reached the
  length, the rest of the same frame is written in the same call.
\<close>

theorem do_write_handler_advances_and_continues:
  assumes "tx_q s = buf_ref # rest" and "0 \<le> pos buf_ref" and "int n \<le> nbytes buf_ref"
  shows "do_write_handler False n s = Inr
     (if pos buf_ref + int n = buf_len buf_ref then
        (case rest of
           [] \<Rightarrow> s\<lparr>tx_q := [], tx_in_progress := False\<rparr>
         | next_ref # _ \<Rightarrow>
             s\<lparr>tx_q := rest, tx_in_progress := True,
               async_write_some := async_write_some s @ [take (nat (nbytes next_ref)) (dpos next_ref)]\<rparr>)
      else
        s\<lparr>tx_q := buf_ref\<lparr>pos := pos buf_ref + int n\<rparr> # rest, tx_in_progress := True,
          async_write_some := async_write_some s @
            [take (nat (buf_len buf_ref - (pos buf_ref + int n)))
                  (drop (nat (pos buf_ref + int n)) (data buf_ref))]\<rparr>)"
  using assms by (rule do_write_handler_success)

lemma tx_started_eq:
  "tx_started = serial_plugin
     \<lparr>tx_q := [MsgBuffer_of mavlink_example heartbeat0, MsgBuffer_of mavlink_example heartbeat1],
      io_posted := [Do_write True, Do_write True],
      tx_in_progress := True,
      async_write_some := [[253, 0, 0, 0, 0, 1, 1, 0, 0, 0, 121, 129]]\<rparr>"
proof -
  have "tx_started = do_write True (serial_plugin
     \<lparr>tx_q := [MsgBuffer_of mavlink_example heartbeat0, MsgBuffer_of mavlink_example heartbeat1],
      io_posted := [Do_write True, Do_write True]\<rparr>)"
    by (simp add: tx_started_def send_mavlink_message_serial example_facts)
      (simp add: serial_plugin_def new_plugin_def GazeboMavlinkInterface_new_def raw_object_def)
  also have "\<dots> = serial_plugin
     \<lparr>tx_q := [MsgBuffer_of mavlink_example heartbeat0, MsgBuffer_of mavlink_example heartbeat1],
      io_posted := [Do_write True, Do_write True],
      tx_in_progress := True,
      async_write_some := [[253, 0, 0, 0, 0, 1, 1, 0, 0, 0, 121, 129]]\<rparr>"
    by (simp add: do_write_def MsgBuffer_of_heartbeat nbytes_def dpos_def)
      (simp add: serial_plugin_def new_plugin_def GazeboMavlinkInterface_new_def raw_object_def)
  finally show ?thesis .
qed

theorem do_write_handler_advances_and_continues_witness:
  "tx_q tx_started = [MsgBuffer_of mavlink_example heartbeat0, MsgBuffer_of mavlink_example heartbeat1]
   \<and> 0 \<le> pos (MsgBuffer_of mavlink_example heartbeat0)
   \<and> int 12 \<le> nbytes (MsgBuffer_of mavlink_example heartbeat0)
   \<and> do_write_handler False 12 tx_started = Inr
       (tx_started
          \<lparr>tx_q := [MsgBuffer_of mavlink_example heartbeat1], tx_in_progress := True,
           async_write_some := [[253, 0, 0, 0, 0, 1, 1, 0, 0, 0, 121, 129],
                                [253, 0, 0, 0, 1, 1, 1, 0, 0, 0, 172, 30]]\<rparr>)"
proof -
  have q: "tx_q tx_started
      = [MsgBuffer_of mavlink_example heartbeat0, MsgBuffer_of mavlink_example heartbeat1]"
    by (simp add: tx_started_eq)
  have l: "0 \<le> pos (MsgBuffer_of mavlink_example heartbeat0)"
    "int 12 \<le> nbytes (MsgBuffer_of mavlink_example heartbeat0)"
    by (simp_all add: MsgBuffer_of_heartbeat nbytes_def)
  have a: "async_write_some tx_started = [[253, 0, 0, 0, 0, 1, 1, 0, 0, 0, 121, 129]]"
    by (simp add: tx_started_eq)
  have "do_write_handler False 12 tx_started = Inr
       (tx_started
          \<lparr>tx_q := [MsgBuffer_of mavlink_example heartbeat1], tx_in_progress := True,
           async_write_some := async_write_some tx_started @
             [[253, 0, 0, 0, 1, 1, 1, 0, 0, 0, 172, 30]]\<rparr>)"
    using do_write_handler_advances_and_continues [OF q l]
    by (simp add: MsgBuffer_of_heartbeat nbytes_def dpos_def)
  with q l a show ?thesis by simp
qed

lemma do_write_handler_error:
  "tx_q s = buf_ref # rest \<Longrightarrow> int n \<le> buf_len buf_ref \<Longrightarrow>
   do_write_handler True n s = Inr (s\<lparr>gzerr := gzerr s @ [''Serial error: '']\<rparr>)"
  by (simp add: do_write_handler_def)

lemma do_write_in_progress:
  "tx_in_progress s \<Longrightarrow> do_write True s = s"
  by (simp add: do_write_def)

text \<open>While \<^verbatim>\<open>tx_in_progress\<close> is set, enqueuing a frame and running the posted
  \<^verbatim>\<open>do_write(true)\<close> starts no write and leaves the front frame where it is.\<close>

lemma do_write_after_send_in_progress:
  assumes "tx_in_progress s" and "tx_q s = buf_ref # rest"
  shows "tx_in_progress (do_write True (send_mavlink_message L message port s))
       \<and> async_write_some (do_write True (send_mavlink_message L message port s)) = async_write_some s
       \<and> hd (tx_q (do_write True (send_mavlink_message L message port s))) = buf_ref"
  using assms by (simp add: do_write_def send_mavlink_message_def Let_def)

text \<open>
  Claim C2 on the code. Two frames are queued and the write of the first is in flight.
  The write completes with an error after 5 bytes: the handler logs and returns. The first
  frame is still at the front with its cursor at 0, \<^verbatim>\<open>tx_in_progress\<close> is still set,
  so the next \<^verbatim>\<open>do_write(true)\<close> returns at once, and enqueuing a further frame starts
  no write either: nothing is written again.
\<close>

theorem do_write_handler_error_stalls:
  "do_write_handler True 5 tx_started = Inr (tx_started\<lparr>gzerr := [''Serial error: '']\<rparr>)
   \<and> tx_in_progress (tx_started\<lparr>gzerr := [''Serial error: '']\<rparr>)
   \<and> tx_q (tx_started\<lparr>gzerr := [''Serial error: '']\<rparr>)
       = [MsgBuffer_of mavlink_example heartbeat0, MsgBuffer_of mavlink_example heartbeat1]
   \<and> do_write True (tx_started\<lparr>gzerr := [''Serial error: '']\<rparr>)
       = tx_started\<lparr>gzerr := [''Serial error: '']\<rparr>
   \<and> async_write_some
        (do_write True (send_mavlink_message mavlink_example heartbeat1 0
           (tx_started\<lparr>gzerr := [''Serial error: '']\<rparr>)))
       = async_write_some tx_started"
proof -
  have q: "tx_q tx_started
      = [MsgBuffer_of mavlink_example heartbeat0, MsgBuffer_of mavlink_example heartbeat1]"
    and p: "tx_in_progress tx_started" and g: "gzerr tx_started = []"
    by (simp_all add: tx_started_eq)
      (simp add: serial_plugin_def new_plugin_def GazeboMavlinkInterface_new_def)
  have "do_write_handler True 5 tx_started
      = Inr (tx_started\<lparr>gzerr := gzerr tx_started @ [''Serial error: '']\<rparr>)"
    by (rule do_write_handler_error [OF q]) (simp add: MsgBuffer_of_heartbeat)
  then show ?thesis
    using do_write_after_send_in_progress
            [of "tx_started\<lparr>gzerr := [''Serial error: '']\<rparr>"
                "MsgBuffer_of mavlink_example heartbeat0"
                "[MsgBuffer_of mavlink_example heartbeat1]" mavlink_example heartbeat1 0]
    by (simp add: q p g do_write_in_progress)
qed

section \<open>Routing\<close>

lemma send_mavlink_message_udp:
  "\<not> (serial_enabled s \<and> destination_port = 0) \<Longrightarrow>
   send_mavlink_message L message destination_port s =
     s\<lparr>sendto_log := sendto_log s @ [(srcaddr s, mavlink_msg_to_send_buffer L message)]\<rparr>"
  by (simp add: send_mavlink_message_def Let_def)

lemma send_mavlink_message_closed:
  "serial_enabled s \<Longrightarrow> \<not> serial_dev_open s \<Longrightarrow>
   send_mavlink_message L message 0 s = s\<lparr>gzerr := gzerr s @ [''Serial port closed! '']\<rparr>"
  by (simp add: send_mavlink_message_def)

text \<open>
  Claim C7, as the code has it. If the serial transport is enabled and the port argument
  is zero, the frame is appended to the serial transmit queue when the serial device is
  open, and is dropped with an error line (neither queued nor sent) when it is closed.
  Otherwise the frame is encoded and handed to one UDP \<^verbatim>\<open>sendto\<close>, which goes to the
  configured peer \<^verbatim>\<open>_srcaddr\<close> when no port is given.
\<close>

theorem send_mavlink_message_routes:
  "(serial_enabled s \<and> destination_port = 0 \<and> serial_dev_open s \<longrightarrow>
      tx_q (send_mavlink_message L message destination_port s) = tx_q s @ [MsgBuffer_of L message]
      \<and> sendto_log (send_mavlink_message L message destination_port s) = sendto_log s)
   \<and> (serial_enabled s \<and> destination_port = 0 \<and> \<not> serial_dev_open s \<longrightarrow>
      send_mavlink_message L message destination_port s
        = s\<lparr>gzerr := gzerr s @ [''Serial port closed! '']\<rparr>)
   \<and> (\<not> (serial_enabled s \<and> destination_port = 0) \<longrightarrow>
      tx_q (send_mavlink_message L message destination_port s) = tx_q s
      \<and> (\<exists>dest. sendto_log (send_mavlink_message L message destination_port s)
                   = sendto_log s @ [(dest, mavlink_msg_to_send_buffer L message)]
                 \<and> (destination_port = 0 \<longrightarrow> dest = srcaddr s)))"
  by (auto simp add: send_mavlink_message_serial send_mavlink_message_udp
        send_mavlink_message_closed)

theorem send_mavlink_message_routes_witness:
  "(serial_enabled serial_plugin \<and> serial_dev_open serial_plugin
      \<and> tx_q (send_mavlink_message mavlink_example heartbeat0 0 serial_plugin)
          = tx_q serial_plugin @ [MsgBuffer_of mavlink_example heartbeat0])
   \<and> (serial_enabled serial_closed \<and> \<not> serial_dev_open serial_closed
      \<and> send_mavlink_message mavlink_example heartbeat0 0 serial_closed
          = serial_closed\<lparr>gzerr := gzerr serial_closed @ [''Serial port closed! '']\<rparr>)
   \<and> (\<not> serial_enabled new_plugin
      \<and> sendto_log (send_mavlink_message mavlink_example heartbeat0 0 new_plugin)
          = sendto_log new_plugin
              @ [(srcaddr new_plugin, mavlink_msg_to_send_buffer mavlink_example heartbeat0)])"
  using send_mavlink_message_routes [of serial_plugin 0 mavlink_example heartbeat0]
        send_mavlink_message_routes [of serial_closed 0 mavlink_example heartbeat0]
        send_mavlink_message_routes [of new_plugin 0 mavlink_example heartbeat0]
  by (simp add: example_facts)

text \<open>
  Claim C7 as stated fails: with the serial transport enabled, no port given and the
  serial device closed, the frame is not put on the transmit queue (and not sent).
\<close>

theorem send_mavlink_message_closed_device_counterexample:
  "serial_enabled serial_closed
   \<and> tx_q (send_mavlink_message mavlink_example heartbeat0 0 serial_closed) = tx_q serial_closed
   \<and> sendto_log (send_mavlink_message mavlink_example heartbeat0 0 serial_closed)
       = sendto_log serial_closed"
  by (simp add: send_mavlink_message_closed example_facts)

text \<open>
  With an explicit port the source computes \<^verbatim>\<open>dest_addr\<close> with that port and then
  passes \<^verbatim>\<open>_srcaddr\<close> to \<^verbatim>\<open>sendto\<close>: the datagram goes to the port of \<^verbatim>\<open>_srcaddr\<close>.
  Here port 14550 is asked for and the peer's port is 14560.
\<close>

lemma send_mavlink_message_destination_port_unused:
  "destination_port \<noteq> 0 \<Longrightarrow>
   sendto_log (send_mavlink_message L message destination_port s)
     = sendto_log s @ [(srcaddr s, mavlink_msg_to_send_buffer L message)]"
  by (simp add: send_mavlink_message_udp)

lemma send_mavlink_message_destination_port_unused_example:
  "htons 14550 \<noteq> htons 14560
   \<and> map (sin_port \<circ> fst)
       (sendto_log (send_mavlink_message mavlink_example heartbeat0 14550
          (new_plugin\<lparr>srcaddr := \<lparr>sin_addr = 16777343, sin_port = htons 14560\<rparr>\<rparr>)))
     = [htons 14560]"
  by (simp add: send_mavlink_message_udp new_plugin_def GazeboMavlinkInterface_new_def
        raw_object_def htons_def)

section \<open>Actuator controls\<close>

lemma handle_message_other:
  "msgid msg \<noteq> MAVLINK_MSG_ID_HIL_ACTUATOR_CONTROLS \<Longrightarrow> handle_message L msg s = s"
  by (simp add: handle_message_def)

lemma handle_message_input_reference:
  "msgid msg = MAVLINK_MSG_ID_HIL_ACTUATOR_CONTROLS \<Longrightarrow>
   input_reference (handle_message L msg s) =
     map (\<lambda>i. if mode (mavlink_msg_hil_actuator_controls_decode L msg) AND MAV_MODE_FLAG_SAFETY_ARMED \<noteq> 0
               then (controls (mavlink_msg_hil_actuator_controls_decode L msg) i + input_offset s i)
                      * input_scaling s i + zero_position_armed s i
               else zero_position_disarmed s i)
         [0..<n_out_max]"
  by (simp add: handle_message_def Let_def word_greater_zero_iff)

text \<open>
  Claim C5. On a HIL actuator-control message the Actuator Reference gets \<open>n_out_max\<close>
  channels. If the mode has the safety-armed flag, channel \<open>i\<close> is
  \<open>(raw control i + input_offset i) * input_scaling i + zero_position_armed i\<close>; if not,
  channel \<open>i\<close> is \<open>zero_position_disarmed i\<close>, whatever the raw control values.
\<close>

theorem handle_message_actuator_controls:
  assumes "msgid msg = MAVLINK_MSG_ID_HIL_ACTUATOR_CONTROLS" and "i < n_out_max"
  shows "length (input_reference (handle_message L msg s)) = n_out_max
       \<and> input_reference (handle_message L msg s) ! i =
          (if mode (mavlink_msg_hil_actuator_controls_decode L msg) AND MAV_MODE_FLAG_SAFETY_ARMED \<noteq> 0
           then (controls (mavlink_msg_hil_actuator_controls_decode L msg) i + input_offset s i)
                  * input_scaling s i + zero_position_armed s i
           else zero_position_disarmed s i)"
  using assms by (simp add: handle_message_input_reference)

text \<open>Armed with raw control 100, offset 0, scaling 1 and armed zero position 0, channel
  0 is 100. Disarmed (mode 0) with the same raw control and disarmed zero position 7,
  channel 0 is 7.\<close>

theorem handle_message_actuator_controls_witness:
  "msgid actuator_msg = MAVLINK_MSG_ID_HIL_ACTUATOR_CONTROLS \<and> 0 < n_out_max
   \<and> input_reference (handle_message mavlink_example actuator_msg actuator_plugin) ! 0 = 100
   \<and> input_reference (handle_message mavlink_disarmed actuator_msg actuator_plugin) ! 0 = 7"
  using handle_message_actuator_controls [of actuator_msg 0 mavlink_example actuator_plugin]
        handle_message_actuator_controls [of actuator_msg 0 mavlink_disarmed actuator_plugin]
  by (simp add: actuator_msg_def MAVLINK_MSG_ID_HIL_ACTUATOR_CONTROLS_def n_out_max_def
        mavlink_example_def mavlink_disarmed_def mavlink_v2_def MAV_MODE_FLAG_SAFETY_ARMED_def
        actuator_plugin_def new_plugin_def GazeboMavlinkInterface_new_def)

section \<open>The motor-speed command\<close>

lemma send_mavlink_message_pub [simp]:
  "motor_velocity_reference_pub (send_mavlink_message L m p s) = motor_velocity_reference_pub s"
  by (simp add: send_mavlink_message_def Let_def)

lemma handle_message_pub [simp]:
  "motor_velocity_reference_pub (handle_message L m s) = motor_velocity_reference_pub s"
  by (simp add: handle_message_def Let_def)

lemma poll_message_pub [simp]:
  "motor_velocity_reference_pub (poll_message L m s) = motor_velocity_reference_pub s"
  by (simp add: poll_message_def)

lemma fold_poll_message_pub [simp]:
  "motor_velocity_reference_pub (fold (poll_message L) msgs s) = motor_velocity_reference_pub s"
  by (induction msgs arbitrary: s) simp_all

lemma pollForMAVLinkMessages_pub [simp]:
  "motor_velocity_reference_pub (pollForMAVLinkMessages L datagram s)
     = motor_velocity_reference_pub s"
  by (simp add: pollForMAVLinkMessages_def split: option.split)

text \<open>
  Claim C10. \<^verbatim>\<open>OnUpdate\<close> polls first, so the condition is read after this tick's
  datagram has been handled. If an actuator-control message has been decoded (now or
  before) and the time of the last one is zero or more than 0.2 seconds of simulation
  time back, the command published in this tick is 0 on every channel of the Actuator
  Reference, whatever the reference holds.
\<close>

theorem OnUpdate_actuator_timeout:
  assumes "received_first_referenc (pollForMAVLinkMessages L datagram s)"
      and "last_actuator_time (pollForMAVLinkMessages L datagram s) = 0
           \<or> 0.2 < Double (sim_time s - last_actuator_time (pollForMAVLinkMessages L datagram s))"
  shows "motor_velocity_reference_pub (OnUpdate L datagram s) =
           motor_velocity_reference_pub s @
             [replicate (length (input_reference (pollForMAVLinkMessages L datagram s))) 0]"
proof -
  have "map (\<lambda>i. 0::real) [0..<n] = replicate n 0" for n
    by (simp add: map_replicate_const)
  with assms show ?thesis
    by (auto simp add: OnUpdate_def Let_def)
qed

lemma actuator_stale_facts:
  "received_first_referenc actuator_stale" "last_actuator_time actuator_stale = 1000000000"
  "sim_time actuator_stale = 1300000000" "motor_velocity_reference_pub actuator_stale = []"
  "length (input_reference actuator_stale) = 16" "input_reference actuator_stale ! 0 = 100"
  by (simp_all add: actuator_stale_def handle_message_def Let_def actuator_msg_def
        MAVLINK_MSG_ID_HIL_ACTUATOR_CONTROLS_def n_out_max_def mavlink_example_def
        mavlink_v2_def MAV_MODE_FLAG_SAFETY_ARMED_def actuator_plugin_def new_plugin_def
        GazeboMavlinkInterface_new_def)

theorem OnUpdate_actuator_timeout_witness:
  "received_first_referenc (pollForMAVLinkMessages mavlink_example None actuator_stale)
   \<and> 0.2 < Double (sim_time actuator_stale
                   - last_actuator_time (pollForMAVLinkMessages mavlink_example None actuator_stale))
   \<and> input_reference actuator_stale ! 0 = 100
   \<and> motor_velocity_reference_pub (OnUpdate mavlink_example None actuator_stale)
       = [replicate 16 0]"
  using OnUpdate_actuator_timeout [of mavlink_example None actuator_stale]
  by (simp add: pollForMAVLinkMessages_def actuator_stale_facts Double_def)

text \<open>For contrast: 0.1 seconds after the actuator-control message the published command
  is the Actuator Reference.\<close>

lemma OnUpdate_actuator_fresh_example:
  "motor_velocity_reference_pub (OnUpdate mavlink_example None actuator_fresh) = [replicate 16 100]"
proof -
  have "input_reference actuator_stale = replicate 16 100"
    by (simp add: actuator_stale_def handle_message_def Let_def actuator_msg_def
        MAVLINK_MSG_ID_HIL_ACTUATOR_CONTROLS_def n_out_max_def mavlink_example_def
        mavlink_v2_def MAV_MODE_FLAG_SAFETY_ARMED_def actuator_plugin_def new_plugin_def
        GazeboMavlinkInterface_new_def map_replicate_const)
  then have "map (\<lambda>i. input_reference actuator_stale ! i) [0..<16] = replicate 16 100"
    by (simp add: map_nth [where xs = "replicate 16 (100::real)", simplified])
  then show ?thesis
    by (simp add: OnUpdate_def Let_def pollForMAVLinkMessages_def actuator_fresh_def
          actuator_stale_facts Double_def)
qed

section \<open>The IMU callback\<close>

lemma send_mavlink_message_imu_fields [simp]:
  "imu_update_interval (send_mavlink_message L m p s) = imu_update_interval s"
  "last_imu_time (send_mavlink_message L m p s) = last_imu_time s"
  "last_dt_us (send_mavlink_message L m p s) = last_dt_us s"
  by (simp_all add: send_mavlink_message_def Let_def)

lemma send_hil_imu_fields [simp]:
  "imu_update_interval (send_hil_sensor L m s) = imu_update_interval s"
  "last_imu_time (send_hil_sensor L m s) = last_imu_time s"
  "last_dt_us (send_hil_sensor L m s) = last_dt_us s"
  "imu_update_interval (send_hil_state L m s) = imu_update_interval s"
  "last_imu_time (send_hil_state L m s) = last_imu_time s"
  "last_dt_us (send_hil_state L m s) = last_dt_us s"
  by (simp_all add: send_hil_sensor_def send_hil_state_def)

lemma ImuCallback_imu_fields:
  "imu_update_interval (ImuCallback L imu s) = imu_update_interval s"
  "last_imu_time (ImuCallback L imu s) = (if imu_gate s then sim_time s else last_imu_time s)"
  "last_dt_us (ImuCallback L imu s) =
     (if imu_gate s
      then Some (if 1000 < imu_dt_us imu s then ucast (time_usec imu)
                 else (case last_dt_us s of None \<Rightarrow> ucast (time_usec imu) | Some l \<Rightarrow> l))
      else last_dt_us s)"
  by (simp_all add: ImuCallback_def Let_def imu_gate_def accumulate_gyro_def)

lemma ImuCallback_config [simp]:
  "serial_enabled (ImuCallback L imu s) = serial_enabled s"
  "hil_mode (ImuCallback L imu s) = hil_mode s"
  "hil_state_level (ImuCallback L imu s) = hil_state_level s"
  "srcaddr (ImuCallback L imu s) = srcaddr s"
  by (simp_all add: ImuCallback_def Let_def send_hil_sensor_def send_hil_state_def
        send_mavlink_message_def accumulate_gyro_def)

lemma send_hil_sensor_udp:
  "\<not> serial_enabled s \<Longrightarrow>
   send_hil_sensor L msg s =
     (if hil_mode s \<longrightarrow> \<not> hil_state_level s
      then s\<lparr>sendto_log := sendto_log s @ [(srcaddr s, mavlink_msg_to_send_buffer L msg)]\<rparr>
      else s)"
  by (simp add: send_hil_sensor_def send_mavlink_message_udp)

lemma send_hil_state_udp:
  "\<not> serial_enabled s \<Longrightarrow>
   send_hil_state L msg s =
     (if hil_mode s \<longrightarrow> hil_state_level s
      then s\<lparr>sendto_log := sendto_log s @ [(srcaddr s, mavlink_msg_to_send_buffer L msg)]\<rparr>
      else s)"
  by (simp add: send_hil_state_def send_mavlink_message_udp)

lemma send_hil_sensor_serial:
  "serial_enabled s \<Longrightarrow> serial_dev_open s \<Longrightarrow>
   send_hil_sensor L msg s =
     (if hil_mode s \<longrightarrow> \<not> hil_state_level s
      then s\<lparr>tx_q := tx_q s @ [MsgBuffer_of L msg], io_posted := io_posted s @ [Do_write True]\<rparr>
      else s)"
  by (simp add: send_hil_sensor_def send_mavlink_message_serial)

lemma send_hil_state_serial:
  "serial_enabled s \<Longrightarrow> serial_dev_open s \<Longrightarrow>
   send_hil_state L msg s =
     (if hil_mode s \<longrightarrow> hil_state_level s
      then s\<lparr>tx_q := tx_q s @ [MsgBuffer_of L msg], io_posted := io_posted s @ [Do_write True]\<rparr>
      else s)"
  by (simp add: send_hil_state_def send_mavlink_message_serial)

lemma accumulate_gyro_frame [simp]:
  "serial_enabled (accumulate_gyro imu s) = serial_enabled s"
  "serial_dev_open (accumulate_gyro imu s) = serial_dev_open s"
  "tx_q (accumulate_gyro imu s) = tx_q s"
  "hil_mode (accumulate_gyro imu s) = hil_mode s"
  "hil_state_level (accumulate_gyro imu s) = hil_state_level s"
  "sendto_log (accumulate_gyro imu s) = sendto_log s"
  "srcaddr (accumulate_gyro imu s) = srcaddr s"
  "last_imu_time (accumulate_gyro imu s) = last_imu_time s"
  by (simp_all add: accumulate_gyro_def Let_def)

lemma ImuCallback_udp:
  assumes "\<not> serial_enabled s"
  shows "sendto_log (ImuCallback L imu s) =
           sendto_log s
           @ (if (imu_update_interval s \<noteq> 0
                  \<and> imu_update_interval s \<le> Double (sim_time s - last_imu_time s))
                 \<and> (hil_mode s \<longrightarrow> \<not> hil_state_level s)
              then [(srcaddr s, mavlink_msg_to_send_buffer L (hil_sensor_msg imu))] else [])
           @ (if hil_mode s \<longrightarrow> hil_state_level s
              then [(srcaddr s, mavlink_msg_to_send_buffer L (hil_state_quaternion_msg imu))]
              else [])"
    and "last_imu_time (ImuCallback L imu s) =
           (if imu_update_interval s \<noteq> 0
               \<and> imu_update_interval s \<le> Double (sim_time s - last_imu_time s)
            then sim_time s else last_imu_time s)"
  using assms
  by (simp_all add: ImuCallback_def Let_def send_hil_sensor_udp send_hil_state_udp)

lemma ImuCallback_serial:
  assumes "serial_enabled s" and "serial_dev_open s"
  shows "tx_q (ImuCallback L imu s) =
           tx_q s
           @ (if (imu_update_interval s \<noteq> 0
                  \<and> imu_update_interval s \<le> Double (sim_time s - last_imu_time s))
                 \<and> (hil_mode s \<longrightarrow> \<not> hil_state_level s)
              then [MsgBuffer_of L (hil_sensor_msg imu)] else [])
           @ (if hil_mode s \<longrightarrow> hil_state_level s
              then [MsgBuffer_of L (hil_state_quaternion_msg imu)] else [])"
  using assms
  by (simp add: ImuCallback_def Let_def send_hil_sensor_serial send_hil_state_serial)

lemma imu_example_facts:
  "\<not> serial_enabled imu_due" "\<not> hil_mode imu_due" "sendto_log imu_due = []"
  "imu_update_interval imu_due = 0.004" "sim_time imu_due = 5000000" "last_imu_time imu_due = 0"
  "\<not> serial_enabled imu_zero_interval" "\<not> hil_mode imu_zero_interval"
  "sendto_log imu_zero_interval = []" "imu_update_interval imu_zero_interval = 0"
  "srcaddr imu_due = srcaddr new_plugin"
  "srcaddr imu_zero_interval = srcaddr new_plugin"
  by (simp_all add: imu_due_def imu_zero_interval_def new_plugin_def
        GazeboMavlinkInterface_new_def)

lemma imu_at_wire:
  "mavlink_msg_to_send_buffer mavlink_example (hil_sensor_msg (imu_at t))
     = [253, 0, 0, 0, 0, 1, 1, 107, 0, 0, 121, 129]"
  "mavlink_msg_to_send_buffer mavlink_example (hil_state_quaternion_msg (imu_at t))
     = [253, 0, 0, 0, 1, 1, 1, 115, 0, 0, 172, 30]"
  by (simp_all add: imu_at_def mavlink_example_def mavlink_v2_def v2_msg_to_send_buffer_def
        heartbeat0_def heartbeat1_def)

text \<open>
  Claim C6, as the code has it. On either transport (UDP, or the serial queue with the
  device open): the HIL sensor sample is built and sent only when the configured update
  interval is not zero and the simulation time since the previous sensor emission is at
  least the interval, so a zero interval disables the sensor sample altogether; the time
  of the previous emission is updated exactly then. The HIL ground-truth state is built
  on every IMU callback, whatever the interval and the elapsed time. (In HIL mode
  \<^verbatim>\<open>hil_state_level\<close> then selects which of the two is sent.)
\<close>

theorem ImuCallback_rate_gating:
  "(\<not> serial_enabled s \<longrightarrow>
      sendto_log (ImuCallback L imu s) =
        sendto_log s
        @ (if (imu_update_interval s \<noteq> 0
               \<and> imu_update_interval s \<le> Double (sim_time s - last_imu_time s))
              \<and> (hil_mode s \<longrightarrow> \<not> hil_state_level s)
           then [(srcaddr s, mavlink_msg_to_send_buffer L (hil_sensor_msg imu))] else [])
        @ (if hil_mode s \<longrightarrow> hil_state_level s
           then [(srcaddr s, mavlink_msg_to_send_buffer L (hil_state_quaternion_msg imu))]
           else []))
   \<and> (serial_enabled s \<and> serial_dev_open s \<longrightarrow>
      tx_q (ImuCallback L imu s) =
        tx_q s
        @ (if (imu_update_interval s \<noteq> 0
               \<and> imu_update_interval s \<le> Double (sim_time s - last_imu_time s))
              \<and> (hil_mode s \<longrightarrow> \<not> hil_state_level s)
           then [MsgBuffer_of L (hil_sensor_msg imu)] else [])
        @ (if hil_mode s \<longrightarrow> hil_state_level s
           then [MsgBuffer_of L (hil_state_quaternion_msg imu)] else []))
   \<and> last_imu_time (ImuCallback L imu s) =
        (if imu_update_interval s \<noteq> 0
            \<and> imu_update_interval s \<le> Double (sim_time s - last_imu_time s)
         then sim_time s else last_imu_time s)"
  using ImuCallback_udp(1) [of s L imu] ImuCallback_serial [of s L imu]
  by (simp add: ImuCallback_imu_fields imu_gate_def)

text \<open>At 5 ms with the default interval of 4 ms both messages go out, by UDP and on the
  serial queue.\<close>

theorem ImuCallback_rate_gating_witness:
  "\<not> serial_enabled imu_due
   \<and> sendto_log (ImuCallback mavlink_example (imu_at 5000) imu_due)
       = [(srcaddr new_plugin, [253, 0, 0, 0, 0, 1, 1, 107, 0, 0, 121, 129]),
          (srcaddr new_plugin, [253, 0, 0, 0, 1, 1, 1, 115, 0, 0, 172, 30])]
   \<and> serial_enabled serial_due \<and> serial_dev_open serial_due
   \<and> map data (tx_q (ImuCallback mavlink_example (imu_at 5000) serial_due))
       = [[253, 0, 0, 0, 0, 1, 1, 107, 0, 0, 121, 129], [253, 0, 0, 0, 1, 1, 1, 115, 0, 0, 172, 30]]
   \<and> last_imu_time (ImuCallback mavlink_example (imu_at 5000) imu_due) = 5000000"
proof -
  have f: "serial_enabled serial_due" "serial_dev_open serial_due" "\<not> hil_mode serial_due"
    "tx_q serial_due = []" "imu_update_interval serial_due = 0.004" "sim_time serial_due = 5000000"
    "last_imu_time serial_due = 0"
    by (simp_all add: serial_due_def serial_plugin_def new_plugin_def GazeboMavlinkInterface_new_def)
  show ?thesis
    using ImuCallback_rate_gating [of imu_due mavlink_example "imu_at 5000"]
          ImuCallback_rate_gating [of serial_due mavlink_example "imu_at 5000"]
    by (simp add: imu_example_facts f imu_at_wire Double_def MsgBuffer_of_def)
qed

text \<open>
  Claim C6 as stated fails twice. With the update interval zero the sensor sample is not
  emitted: only the ground-truth state goes out. With the default interval of 4 ms, two
  IMU callbacks at 1 ms and at 2 ms emit the ground-truth state twice, 1 ms apart (and no
  sensor sample).
\<close>

theorem ImuCallback_rate_gating_counterexample:
  "imu_update_interval imu_zero_interval = 0
   \<and> sendto_log (ImuCallback mavlink_example (imu_at 5000) imu_zero_interval)
       = [(srcaddr new_plugin, [253, 0, 0, 0, 1, 1, 1, 115, 0, 0, 172, 30])]
   \<and> imu_update_interval new_plugin = 0.004
   \<and> sendto_log (imu_run mavlink_example imu_events_1ms new_plugin)
       = [(srcaddr new_plugin, [253, 0, 0, 0, 1, 1, 1, 115, 0, 0, 172, 30]),
          (srcaddr new_plugin, [253, 0, 0, 0, 1, 1, 1, 115, 0, 0, 172, 30])]"
proof -
  define s1 where "s1 = ImuCallback mavlink_example (imu_at 1000) (new_plugin\<lparr>sim_time := 1000000\<rparr>)"
  have f0: "\<not> serial_enabled new_plugin" "\<not> hil_mode new_plugin" "sendto_log new_plugin = []"
    "imu_update_interval new_plugin = 0.004" "last_imu_time new_plugin = 0"
    by (simp_all add: new_plugin_def GazeboMavlinkInterface_new_def)
  have g1: "\<not> imu_gate (new_plugin\<lparr>sim_time := 1000000\<rparr>)"
    by (simp add: imu_gate_def f0 Double_def)
  have l1: "sendto_log s1 = [(srcaddr new_plugin, [253, 0, 0, 0, 1, 1, 1, 115, 0, 0, 172, 30])]"
    unfolding s1_def
    using ImuCallback_udp(1) [of "new_plugin\<lparr>sim_time := 1000000\<rparr>" mavlink_example "imu_at 1000"]
    by (simp add: f0 imu_at_wire Double_def)
  have f1: "\<not> serial_enabled s1" "\<not> hil_mode s1" "srcaddr s1 = srcaddr new_plugin"
    "imu_update_interval s1 = 0.004" "last_imu_time s1 = 0"
    by (simp_all add: s1_def ImuCallback_imu_fields g1 f0)
  have l2: "sendto_log (ImuCallback mavlink_example (imu_at 2000) (s1\<lparr>sim_time := 2000000\<rparr>))
      = [(srcaddr new_plugin, [253, 0, 0, 0, 1, 1, 1, 115, 0, 0, 172, 30]),
         (srcaddr new_plugin, [253, 0, 0, 0, 1, 1, 1, 115, 0, 0, 172, 30])]"
    using ImuCallback_udp(1) [of "s1\<lparr>sim_time := 2000000\<rparr>" mavlink_example "imu_at 2000"]
    by (simp add: f1 l1 imu_at_wire Double_def)
  have "sendto_log (imu_run mavlink_example imu_events_1ms new_plugin)
      = [(srcaddr new_plugin, [253, 0, 0, 0, 1, 1, 1, 115, 0, 0, 172, 30]),
         (srcaddr new_plugin, [253, 0, 0, 0, 1, 1, 1, 115, 0, 0, 172, 30])]"
    using l2 by (simp add: imu_run_def imu_events_1ms_def s1_def)
  then show ?thesis
    using ImuCallback_udp(1) [of imu_zero_interval mavlink_example "imu_at 5000"]
    by (simp add: imu_example_facts imu_at_wire Double_def f0)
qed

section \<open>The optical-flow gyro accumulator\<close>

lemma send_mavlink_message_optflow_gyro [simp]:
  "optflow_gyro (send_mavlink_message L m p s) = optflow_gyro s"
  by (simp add: send_mavlink_message_def Let_def)

lemma send_hil_optflow_gyro [simp]:
  "optflow_gyro (send_hil_sensor L m s) = optflow_gyro s"
  "optflow_gyro (send_hil_state L m s) = optflow_gyro s"
  by (simp_all add: send_hil_sensor_def send_hil_state_def)

lemma accumulate_gyro_optflow_gyro:
  "optflow_gyro (accumulate_gyro imu s) =
     (if 1000 < imu_dt_us imu s
      then v3_add (optflow_gyro s)
             (v3_scale (gyro_b imu) (real (unat (imu_dt_us imu s)) / 1000000))
      else optflow_gyro s)"
  by (simp add: accumulate_gyro_def Let_def)

lemma ImuCallback_optflow_gyro:
  "optflow_gyro (ImuCallback L imu s) =
     (if imu_gate s \<and> 1000 < imu_dt_us imu s
      then v3_add (optflow_gyro s)
             (v3_scale (gyro_b imu) (real (unat (imu_dt_us imu s)) / 1000000))
      else optflow_gyro s)"
  by (simp add: ImuCallback_def Let_def imu_gate_def accumulate_gyro_optflow_gyro)

lemma OpticalFlowCallback_optflow_gyro:
  "optflow_gyro (OpticalFlowCallback L flow_quality s) = v3_zero"
  by (simp add: OpticalFlowCallback_def Let_def)

lemma v3_scale_add:
  "v3_add (v3_scale w k) (v3_scale w d) = v3_scale w (k + d)"
  by (simp add: v3_add_def v3_scale_def algebra_simps)

lemma v3_scale_zero: "v3_scale w 0 = v3_zero"
  by (simp add: v3_scale_def v3_zero_def)

lemma GetLength_v3_scale: "GetLength (v3_scale w k) = \<bar>k\<bar> * GetLength w"
proof -
  have "v3x w * k * (v3x w * k) + v3y w * k * (v3y w * k) + v3z w * k * (v3z w * k)
      = k\<^sup>2 * (v3x w * v3x w + v3y w * v3y w + v3z w * v3z w)"
    by (simp add: power2_eq_square algebra_simps)
  then show ?thesis
    by (simp add: GetLength_def v3_scale_def real_sqrt_mult)
qed

lemma GetLength_nonneg: "0 \<le> GetLength w"
  by (simp add: GetLength_def)

text \<open>One callback at a constant rate \<open>w\<close>: a non-negative multiple of \<open>w\<close> becomes a
  multiple that is at least as large.\<close>

lemma ImuCallback_multiple:
  assumes "optflow_gyro s = v3_scale w k" and "gyro_b imu = w"
  shows "\<exists>k'\<ge>k. optflow_gyro (ImuCallback L imu s) = v3_scale w k'"
proof (cases "imu_gate s \<and> 1000 < imu_dt_us imu s")
  case True
  then have "optflow_gyro (ImuCallback L imu s)
      = v3_add (optflow_gyro s) (v3_scale (gyro_b imu) (real (unat (imu_dt_us imu s)) / 1000000))"
    unfolding ImuCallback_optflow_gyro by (rule if_P)
  then have "optflow_gyro (ImuCallback L imu s)
      = v3_scale w (k + real (unat (imu_dt_us imu s)) / 1000000)"
    by (simp add: assms v3_scale_add)
  moreover have "0 \<le> real (unat (imu_dt_us imu s)) / 1000000"
    by (intro divide_nonneg_nonneg of_nat_0_le_iff) simp
  then have "k \<le> k + real (unat (imu_dt_us imu s)) / 1000000"
    by linarith
  ultimately show ?thesis by blast
next
  case False
  then have "optflow_gyro (ImuCallback L imu s) = optflow_gyro s"
    unfolding ImuCallback_optflow_gyro by (rule if_not_P)
  then have "optflow_gyro (ImuCallback L imu s) = v3_scale w k"
    by (simp add: assms)
  then show ?thesis by blast
qed

lemma imu_run_snoc:
  "imu_run L (events @ [(t, imu)]) s = ImuCallback L imu ((imu_run L events s)\<lparr>sim_time := t\<rparr>)"
  by (simp add: imu_run_def)

lemma imu_run_multiple:
  assumes "optflow_gyro s = v3_scale w k" and "\<forall>e\<in>set events. gyro_b (snd e) = w"
  shows "\<exists>k'\<ge>k. optflow_gyro (imu_run L events s) = v3_scale w k'"
  using assms(2)
proof (induction events rule: rev_induct)
  case Nil
  then show ?case using assms(1) by (auto simp add: imu_run_def)
next
  case (snoc e events)
  obtain t imu where e: "e = (t, imu)" by (cases e)
  from snoc obtain k1 where k1: "k \<le> k1" "optflow_gyro (imu_run L events s) = v3_scale w k1"
    by auto
  have "optflow_gyro ((imu_run L events s)\<lparr>sim_time := t\<rparr>) = v3_scale w k1"
    using k1 by simp
  moreover have "gyro_b imu = w"
    using snoc.prems e by simp
  ultimately obtain k2 where "k1 \<le> k2"
      "optflow_gyro (ImuCallback L imu ((imu_run L events s)\<lparr>sim_time := t\<rparr>)) = v3_scale w k2"
    using ImuCallback_multiple by blast
  with k1 e show ?case
    by (auto simp add: imu_run_snoc intro: order_trans)
qed

lemma imu_run_magnitude:
  assumes "optflow_gyro s0 = v3_zero" and "\<forall>e\<in>set events. gyro_b (snd e) = w"
  shows "GetLength (optflow_gyro (imu_run L (butlast events) s0))
           \<le> GetLength (optflow_gyro (imu_run L events s0))"
proof (cases events rule: rev_cases)
  case Nil
  then show ?thesis by simp
next
  case (snoc pre e)
  obtain t imu where e: "e = (t, imu)" by (cases e)
  have z: "optflow_gyro s0 = v3_scale w 0"
    using assms(1) by (simp add: v3_scale_zero)
  have "\<forall>e\<in>set pre. gyro_b (snd e) = w"
    using assms(2) snoc by simp
  from imu_run_multiple [OF z this]
  obtain k1 where k1: "0 \<le> k1" "optflow_gyro (imu_run L pre s0) = v3_scale w k1"
    by blast
  have "optflow_gyro ((imu_run L pre s0)\<lparr>sim_time := t\<rparr>) = v3_scale w k1"
    using k1 by simp
  moreover have "gyro_b imu = w"
    using assms(2) snoc e by simp
  ultimately obtain k2 where k2: "k1 \<le> k2"
      "optflow_gyro (ImuCallback L imu ((imu_run L pre s0)\<lparr>sim_time := t\<rparr>)) = v3_scale w k2"
    using ImuCallback_multiple by blast
  have "\<bar>k1\<bar> * GetLength w \<le> \<bar>k2\<bar> * GetLength w"
    using k1(1) k2(1) by (intro mult_right_mono GetLength_nonneg) simp
  then show ?thesis
    using snoc e k1 k2 by (simp add: imu_run_snoc GetLength_v3_scale)
qed

text \<open>
  Claim C8. The accumulator is zero after every optical-flow callback. An IMU callback
  adds to it, and only when the sensor sample is due and the microsecond time since the
  last accumulation (a 32-bit difference) exceeds 1000: then it adds the gyro rate times
  that time in seconds. Hence over any run of IMU callbacks with a constant rate that
  starts with the accumulator at zero, the magnitude after each callback is at least the
  magnitude before it.
\<close>

theorem optflow_gyro_accumulates_between_flow_samples:
  assumes "optflow_gyro s0 = v3_zero" and "\<forall>e\<in>set events. gyro_b (snd e) = w"
  shows "optflow_gyro (OpticalFlowCallback L flow_quality s) = v3_zero
       \<and> optflow_gyro (ImuCallback L imu s) =
           (if imu_gate s \<and> 1000 < imu_dt_us imu s
            then v3_add (optflow_gyro s)
                   (v3_scale (gyro_b imu) (real (unat (imu_dt_us imu s)) / 1000000))
            else optflow_gyro s)
       \<and> GetLength (optflow_gyro (imu_run L (butlast events) s0))
           \<le> GetLength (optflow_gyro (imu_run L events s0))"
  using imu_run_magnitude [OF assms, of L]
  by (simp add: OpticalFlowCallback_optflow_gyro ImuCallback_optflow_gyro)

text \<open>The example run: the first sample initialises \<^verbatim>\<open>last_dt_us\<close>, the second and the
  third each add 5 ms of the rate (1, 2, -2).\<close>

lemma imu_events_run:
  "optflow_gyro (imu_run mavlink_example (butlast imu_events) new_plugin)
     = \<lparr>v3x = 0.005, v3y = 0.01, v3z = - 0.01\<rparr>"
  "optflow_gyro (imu_run mavlink_example imu_events new_plugin)
     = \<lparr>v3x = 0.01, v3y = 0.02, v3z = - 0.02\<rparr>"
proof -
  define s1 where "s1 = ImuCallback mavlink_example (imu_at 5000) (new_plugin\<lparr>sim_time := 5000000\<rparr>)"
  define s2 where "s2 = ImuCallback mavlink_example (imu_at 10000) (s1\<lparr>sim_time := 10000000\<rparr>)"
  define s3 where "s3 = ImuCallback mavlink_example (imu_at 15000) (s2\<lparr>sim_time := 15000000\<rparr>)"
  have f0: "imu_update_interval new_plugin = 0.004" "last_imu_time new_plugin = 0"
    "last_dt_us new_plugin = None" "optflow_gyro new_plugin = v3_zero"
    by (simp_all add: new_plugin_def GazeboMavlinkInterface_new_def)
  have g1: "imu_gate (new_plugin\<lparr>sim_time := 5000000\<rparr>)"
    by (simp add: imu_gate_def f0 Double_def)
  have d1: "imu_dt_us (imu_at 5000) (new_plugin\<lparr>sim_time := 5000000\<rparr>) = 0"
    by (simp add: imu_dt_us_def f0 imu_at_def)
  have f1: "imu_update_interval s1 = 0.004" "last_imu_time s1 = 5000000"
    "last_dt_us s1 = Some 5000" "optflow_gyro s1 = v3_zero"
    by (simp_all add: s1_def ImuCallback_imu_fields ImuCallback_optflow_gyro g1 d1 f0)
      (simp add: imu_at_def)
  have g2: "imu_gate (s1\<lparr>sim_time := 10000000\<rparr>)"
    by (simp add: imu_gate_def f1 Double_def)
  have d2: "imu_dt_us (imu_at 10000) (s1\<lparr>sim_time := 10000000\<rparr>) = 5000"
    by (simp add: imu_dt_us_def f1 imu_at_def)
  have f2: "imu_update_interval s2 = 0.004" "last_imu_time s2 = 10000000"
    "last_dt_us s2 = Some 10000" "optflow_gyro s2 = \<lparr>v3x = 0.005, v3y = 0.01, v3z = - 0.01\<rparr>"
    by (simp_all add: s2_def ImuCallback_imu_fields ImuCallback_optflow_gyro g2 d2 f1)
      (simp_all add: imu_at_def v3_add_def v3_scale_def v3_zero_def)
  have g3: "imu_gate (s2\<lparr>sim_time := 15000000\<rparr>)"
    by (simp add: imu_gate_def f2 Double_def)
  have d3: "imu_dt_us (imu_at 15000) (s2\<lparr>sim_time := 15000000\<rparr>) = 5000"
    by (simp add: imu_dt_us_def f2 imu_at_def)
  have f3: "optflow_gyro s3 = \<lparr>v3x = 0.01, v3y = 0.02, v3z = - 0.02\<rparr>"
    by (simp add: s3_def ImuCallback_optflow_gyro g3 d3 f2)
      (simp add: imu_at_def v3_add_def v3_scale_def)
  show "optflow_gyro (imu_run mavlink_example (butlast imu_events) new_plugin)
     = \<lparr>v3x = 0.005, v3y = 0.01, v3z = - 0.01\<rparr>"
    using f2 by (simp add: imu_events_def imu_run_def s1_def s2_def)
  show "optflow_gyro (imu_run mavlink_example imu_events new_plugin)
     = \<lparr>v3x = 0.01, v3y = 0.02, v3z = - 0.02\<rparr>"
    using f3 by (simp add: imu_events_def imu_run_def s1_def s2_def s3_def)
qed

theorem optflow_gyro_accumulates_between_flow_samples_witness:
  "optflow_gyro new_plugin = v3_zero
   \<and> map (gyro_b \<circ> snd) imu_events
       = [\<lparr>v3x = 1, v3y = 2, v3z = - 2\<rparr>, \<lparr>v3x = 1, v3y = 2, v3z = - 2\<rparr>,
          \<lparr>v3x = 1, v3y = 2, v3z = - 2\<rparr>]
   \<and> optflow_gyro (imu_run mavlink_example (butlast imu_events) new_plugin)
       = \<lparr>v3x = 0.005, v3y = 0.01, v3z = - 0.01\<rparr>
   \<and> optflow_gyro (imu_run mavlink_example imu_events new_plugin)
       = \<lparr>v3x = 0.01, v3y = 0.02, v3z = - 0.02\<rparr>
   \<and> GetLength \<lparr>v3x = 0.005, v3y = 0.01, v3z = - 0.01\<rparr>
       \<le> GetLength \<lparr>v3x = 0.01, v3y = 0.02, v3z = - 0.02\<rparr>
   \<and> optflow_gyro (OpticalFlowCallback mavlink_example 1
         (imu_run mavlink_example imu_events new_plugin)) = v3_zero"
proof -
  have z: "optflow_gyro new_plugin = v3_zero"
    by (simp add: new_plugin_def GazeboMavlinkInterface_new_def)
  have w: "\<forall>e\<in>set imu_events. gyro_b (snd e) = \<lparr>v3x = 1, v3y = 2, v3z = - 2\<rparr>"
    by (simp add: imu_events_def imu_at_def)
  show ?thesis
    using optflow_gyro_accumulates_between_flow_samples
            [OF z w, of mavlink_example 1 "imu_run mavlink_example imu_events new_plugin"]
    by (simp add: z imu_events_run) (simp add: imu_events_def imu_at_def)
qed

section \<open>Serial ingestion\<close>

lemma send_mavlink_message_rx [simp]:
  "m_status (send_mavlink_message L m p s) = m_status s"
  "m_buffer (send_mavlink_message L m p s) = m_buffer s"
  by (simp_all add: send_mavlink_message_def Let_def)

lemma handle_message_rx [simp]:
  "m_status (handle_message L m s) = m_status s"
  "m_buffer (handle_message L m s) = m_buffer s"
  by (simp_all add: handle_message_def Let_def)

lemma handle_message_out [simp]:
  "sendto_log (handle_message L m s) = sendto_log s"
  "tx_q (handle_message L m s) = tx_q s"
  by (simp_all add: handle_message_def Let_def)

lemma send_mavlink_message_rx_update [simp]:
  "sendto_log (send_mavlink_message L m p (s\<lparr>m_status := a, m_buffer := b\<rparr>))
     = sendto_log (send_mavlink_message L m p s)"
  "tx_q (send_mavlink_message L m p (s\<lparr>m_status := a, m_buffer := b\<rparr>))
     = tx_q (send_mavlink_message L m p s)"
  by (simp_all add: send_mavlink_message_def Let_def)

lemma parse_buffer_snoc:
  "length (pre @ [c]) \<le> MAX_SIZE \<Longrightarrow>
   parse_buffer L (pre @ [c]) s = Inr (parse_char L c (fold (parse_char L) pre s))"
  by (simp add: parse_buffer_def)

text \<open>One byte on which the library hands back a frame.\<close>

lemma parse_char_frame:
  assumes "mavlink_frame_char_buffer L (m_buffer s) (m_status s) c = (rxmsg, status, message, result)"
      and "result \<noteq> incomplete"
  shows "parse_char L c s =
           handle_message L message
             (send_mavlink_message L message (qgc_udp_port s)
                (s\<lparr>m_status := (if result = ok then status
                                else (mav_parse_error L status)
                                       \<lparr>msg_received := incomplete,
                                        parse_state := (if c = MAVLINK_STX
                                                        then MAVLINK_PARSE_STATE_GOT_STX
                                                        else MAVLINK_PARSE_STATE_IDLE)\<rparr>),
                   m_buffer := (if result \<noteq> ok \<and> c = MAVLINK_STX
                                then mavlink_start_checksum L (rxmsg\<lparr>len := 0\<rparr>)
                                else rxmsg)\<rparr>))"
  using assms by (cases result) (simp_all add: parse_char_def Let_def)

text \<open>
  For any bytes of a read and any decoder: on a byte \<open>c\<close> for which the library hands
  back a frame, a bad CRC or a bad signature makes the plugin count the parse error and
  reset the receive status to idle, or, if \<open>c\<close> is the start marker, put the parser in
  the state after a start marker with the length zeroed and the checksum restarted. The
  frame handed back is passed to \<^verbatim>\<open>send_mavlink_message\<close> whatever the result was.
\<close>

lemma parse_buffer_frame_reset:
  assumes "length (pre @ [c]) \<le> MAX_SIZE"
      and "mavlink_frame_char_buffer L (m_buffer (fold (parse_char L) pre s))
             (m_status (fold (parse_char L) pre s)) c = (rxmsg, status, message, result)"
      and "result \<noteq> incomplete"
  shows "\<exists>s'. parse_buffer L (pre @ [c]) s = Inr s'
       \<and> m_status s' =
           (if result = ok then status
            else (mav_parse_error L status)
                   \<lparr>msg_received := incomplete,
                    parse_state := (if c = MAVLINK_STX then MAVLINK_PARSE_STATE_GOT_STX
                                    else MAVLINK_PARSE_STATE_IDLE)\<rparr>)
       \<and> m_buffer s' =
           (if result \<noteq> ok \<and> c = MAVLINK_STX
            then mavlink_start_checksum L (rxmsg\<lparr>len := 0\<rparr>) else rxmsg)
       \<and> sendto_log s' =
           sendto_log (send_mavlink_message L message (qgc_udp_port (fold (parse_char L) pre s))
                         (fold (parse_char L) pre s))"
  using assms(1) parse_char_frame [OF assms(2) assms(3)]
  by (simp add: parse_buffer_snoc)

lemmas decoder_example_defs =
  corrupted_then_good_def corrupted_frame_def corrupted_actuator_frame_def parse_char_def mavlink_example_def mavlink_v2_def
  v2_frame_char_buffer_def v2_update_checksum_def crc_accumulate_def crc_extra_def
  v2_start_checksum_def v2_parse_error_def v2_msg_to_send_buffer_def new_plugin_def
  serial_plugin_def
  GazeboMavlinkInterface_new_def raw_object_def heartbeat0_def Let_def MAVLINK_STX_def
  X25_INIT_CRC_def send_mavlink_message_def handle_message_def
  MAVLINK_MSG_ID_HIL_ACTUATOR_CONTROLS_def kDefaultMavlinkUdpPort_def

text \<open>
  Claim C3 on the code. The serial transport is enabled and the device is open. The read
  delivers a HEARTBEAT frame whose last checksum byte has been replaced by the start
  marker, followed by the rest of a well-formed HEARTBEAT frame that starts on that byte.
  After the corrupted frame the parser is as the claim says: one parse error counted, the
  receive status reset to incomplete, the state after a start marker, the length zeroed
  and the checksum restarted; and the well-formed frame that follows is recovered. But
  the corrupted frame is not discarded: the dispatch tests the local copy of the library's
  result, not the status that the reset has just set to incomplete, so the corrupted frame
  is sent out, and the whole read yields two frames, the corrupted one first, where the
  claim has exactly the one well-formed frame.
\<close>

theorem parse_buffer_dispatches_corrupted_frame:
  "parse_buffer mavlink_example corrupted_frame serial_plugin
     = Inr (fold (parse_char mavlink_example) corrupted_frame serial_plugin)
   \<and> m_status (fold (parse_char mavlink_example) corrupted_frame serial_plugin)
       = \<lparr>msg_received = incomplete, parse_state = MAVLINK_PARSE_STATE_GOT_STX,
          parse_error = 1\<rparr>
   \<and> len (m_buffer (fold (parse_char mavlink_example) corrupted_frame serial_plugin)) = 0
   \<and> checksum (m_buffer (fold (parse_char mavlink_example) corrupted_frame serial_plugin))
       = X25_INIT_CRC
   \<and> sendto_log (fold (parse_char mavlink_example) corrupted_frame serial_plugin)
       = [(srcaddr serial_plugin, [253, 0, 0, 0, 0, 1, 1, 0, 0, 0, 121, 253])]
   \<and> parse_buffer mavlink_example corrupted_then_good serial_plugin
       = Inr (fold (parse_char mavlink_example) corrupted_then_good serial_plugin)
   \<and> sendto_log (fold (parse_char mavlink_example) corrupted_then_good serial_plugin)
       = [(srcaddr serial_plugin, [253, 0, 0, 0, 0, 1, 1, 0, 0, 0, 121, 253]),
          (srcaddr serial_plugin, [253, 0, 0, 0, 1, 1, 1, 0, 0, 0, 172, 30])]
   \<and> parse_error (m_status (fold (parse_char mavlink_example) corrupted_then_good serial_plugin))
       = 1"
proof -
  have "length corrupted_frame \<le> MAX_SIZE" "length corrupted_then_good \<le> MAX_SIZE"
    by (simp_all add: corrupted_then_good_def corrupted_frame_def MAX_SIZE_def)
  then have "parse_buffer mavlink_example corrupted_frame serial_plugin
       = Inr (fold (parse_char mavlink_example) corrupted_frame serial_plugin)"
    and "parse_buffer mavlink_example corrupted_then_good serial_plugin
       = Inr (fold (parse_char mavlink_example) corrupted_then_good serial_plugin)"
    by (simp_all add: parse_buffer_def)
  moreover have "m_status (fold (parse_char mavlink_example) corrupted_frame serial_plugin)
       = \<lparr>msg_received = incomplete, parse_state = MAVLINK_PARSE_STATE_GOT_STX,
          parse_error = 1\<rparr>"
    by (simp add: decoder_example_defs)
  moreover have
    "len (m_buffer (fold (parse_char mavlink_example) corrupted_frame serial_plugin)) = 0"
    "checksum (m_buffer (fold (parse_char mavlink_example) corrupted_frame serial_plugin))
       = X25_INIT_CRC"
    by (simp_all add: decoder_example_defs)
  moreover have "sendto_log (fold (parse_char mavlink_example) corrupted_frame serial_plugin)
       = [(srcaddr serial_plugin, [253, 0, 0, 0, 0, 1, 1, 0, 0, 0, 121, 253])]"
    by (simp add: decoder_example_defs)
  moreover have
    "sendto_log (fold (parse_char mavlink_example) corrupted_then_good serial_plugin)
       = [(srcaddr serial_plugin, [253, 0, 0, 0, 0, 1, 1, 0, 0, 0, 121, 253]),
          (srcaddr serial_plugin, [253, 0, 0, 0, 1, 1, 1, 0, 0, 0, 172, 30])]"
    by (simp add: decoder_example_defs)
  moreover have
    "parse_error (m_status (fold (parse_char mavlink_example) corrupted_then_good serial_plugin))
       = 1"
    by (simp add: decoder_example_defs)
  ultimately show ?thesis by simp
qed

text \<open>
  The frame with the bad result is also given to \<^verbatim>\<open>handle_message\<close>: the reset writes
  \<^verbatim>\<open>m_status.msg_received\<close>, and the dispatch tests the local copy of the library's
  result. A HIL actuator-control frame whose checksum does not match sets the Actuator
  Reference.
\<close>

lemma parse_buffer_corrupted_actuator_frame_handled:
  "\<not> received_first_referenc actuator_plugin
   \<and> received_first_referenc (fold (parse_char mavlink_example) corrupted_actuator_frame actuator_plugin)
   \<and> input_reference (fold (parse_char mavlink_example) corrupted_actuator_frame actuator_plugin) ! 0
       = 100
   \<and> parse_error (m_status (fold (parse_char mavlink_example) corrupted_actuator_frame actuator_plugin))
       = 1"
  by (simp add: decoder_example_defs actuator_plugin_def n_out_max_def
        MAV_MODE_FLAG_SAFETY_ARMED_def)

end
